theory Spec2Isabelle
  imports Main
begin

section \<open>Rows of the metadata store\<close>

text \<open>
  The four tables of the broker-backed dataset subsystem, one record per ORM class of
  \<^verbatim>\<open>app/models\<close>. Python integers are \<open>int\<close>; a timestamp is an opaque
  number; a JSON schema and an IP address are carried as text. The primary-key column
  \<^verbatim>\<open>id\<close> of each class is prefixed with the table it belongs to, and the
  \<^verbatim>\<open>creation_date\<close> columns likewise, because record fields share one name space.
\<close>

type_synonym datetime = nat
type_synonym json = string
type_synonym ip_address = string

record BrokerDetails =
  broker_details_id :: int
  broker_name :: string
  broker_ip :: ip_address
  broker_port :: int
  broker_creation_date :: datetime

record TopicDetails =
  topic_details_id :: int
  topic_name :: string
  topic_schema :: json
  broker_id :: int
  topic_creation_date :: datetime

record DatasetInfo =
  dataset_info_id :: int
  train_and_inference_type :: int
  data_source_type :: int
  dataset_name :: string
  description :: string
  user_id :: int
  register_date_time :: datetime
  last_modified_time :: datetime
  last_modified_user_id :: int

record DatasetTopicDetails =
  dataset_topic_details_id :: int
  topic_id :: int
  dataset_id :: int
  link_creation_date :: datetime

record db =
  brokers :: "BrokerDetails list"
  topics :: "TopicDetails list"
  datasets :: "DatasetInfo list"
  dataset_topics :: "DatasetTopicDetails list"

text \<open>Constants of \<^verbatim>\<open>config/constants.py\<close>.\<close>

definition DATA_SOURCE_TYPE_FILE :: int where "DATA_SOURCE_TYPE_FILE = 0"
definition DATA_SOURCE_TYPE_TABLE :: int where "DATA_SOURCE_TYPE_TABLE = 1"
definition BROKER_DATA_SOURCE_TYPE :: int where "BROKER_DATA_SOURCE_TYPE = 2"
definition USER_ID :: int where "USER_ID = 0"
definition DEFAULT_STREAM_DATA_COUNT :: int where "DEFAULT_STREAM_DATA_COUNT = 200"
definition STREAM_TIMEOUT :: int where "STREAM_TIMEOUT = 10000"

section \<open>Exceptions\<close>

text \<open>
  Every message the service formats carries at most an identifier or a name, so a message
  is a constructor holding that value; the format string of each is:
  \<^item> \<open>Broker_with_name_not_found i\<close>: \<^verbatim>\<open>Broker with name {i} not found.\<close>
  \<^item> \<open>Topic_with_name_not_found i\<close>: \<^verbatim>\<open>Topic with name {i} not found.\<close>
  \<^item> \<open>Broker_Id_not_found i\<close>: \<^verbatim>\<open>Broker Id {i} not found.\<close>
  \<^item> \<open>Broker_id_already_exists i\<close>: \<^verbatim>\<open>Broker id {i} already exists.\<close>
  \<^item> \<open>Topic_id_already_exists i\<close>: \<^verbatim>\<open>Topic id {i} already exists.\<close>
  \<^item> \<open>Broker_already_Exists\<close>: \<^verbatim>\<open>Broker already Exists.\<close>
  \<^item> \<open>Dataset_not_found_for_the_id i\<close>: \<^verbatim>\<open>Dataset not found for the id {i}\<close>
  \<^item> \<open>Dataset_not_found_for_ID i\<close>: \<^verbatim>\<open>Dataset not found for ID {i}\<close>
  \<^item> \<open>Dataset_not_found_for_id i\<close>: \<^verbatim>\<open>Dataset not found for id {i}\<close>
  \<^item> \<open>No_entity_found_for_ID n i\<close>: \<^verbatim>\<open>No {n} found for ID: {i}\<close>
  \<^item> \<open>No_topic_association_for_dataset_ID i\<close>: \<^verbatim>\<open>No topic association for dataset ID: {i}\<close>
  \<^item> \<open>Topic_not_found_for_ID i\<close>: \<^verbatim>\<open>Topic not found for ID: {i}\<close>
  \<^item> \<open>Broker_not_found_for_ID i\<close>: \<^verbatim>\<open>Broker not found for ID: {i}\<close>
  \<^item> \<open>Topic_not_found_for_the_id i\<close>: \<^verbatim>\<open>Topic not found for the id {i}\<close>
  \<^item> \<open>No_messages_in_stream_topic n\<close>: \<^verbatim>\<open>No messages in stream topic: {n}\<close>
\<close>

datatype message =
    Broker_with_name_not_found int
  | Topic_with_name_not_found int
  | Broker_Id_not_found int
  | Broker_id_already_exists int
  | Topic_id_already_exists int
  | Broker_already_Exists
  | Dataset_not_found_for_the_id int
  | Dataset_not_found_for_ID int
  | Dataset_not_found_for_id int
  | No_entity_found_for_ID string int
  | No_topic_association_for_dataset_ID int
  | Topic_not_found_for_ID int
  | Broker_not_found_for_ID int
  | Topic_not_found_for_the_id int
  | No_messages_in_stream_topic string

text \<open>
  The exception classes that reach the handlers of the service.
  \<open>NoResultFound\<close> and \<open>IntegrityError\<close> are the classes of
  \<^verbatim>\<open>app/utils/exceptions.py\<close>; \<open>NoRowFound\<close>, \<open>MultipleResultsFound\<close>,
  \<open>DBIntegrityError\<close> and \<open>OperationalError\<close> are SQLAlchemy's own;
  \<open>KafkaError\<close> stands for whatever the stream client raises (connection or decoding).
  \<open>NoResultFound\<close> derives from SQLAlchemy's class of the same name, which the
  service imports as \<^verbatim>\<open>NoRowFound\<close>: an \<^verbatim>\<open>except NoRowFound\<close> clause
  catches both.
\<close>

datatype error =
    NoResultFound message
  | IntegrityError message
  | NoMessagesFound message
  | NoRowFound
  | MultipleResultsFound
  | DBIntegrityError
  | OperationalError
  | KafkaError string

fun is_NoRowFound :: "error \<Rightarrow> bool" where
  "is_NoRowFound (NoResultFound m) = True"
| "is_NoRowFound NoRowFound = True"
| "is_NoRowFound e = False"

section \<open>The database session\<close>

text \<open>
  A session holds the committed rows (what every other reader of the store observes), the
  view of its open transaction, and a script of what the store answers to the next write
  statements: \<open>None\<close> lets the statement run, \<open>Some f\<close> makes it raise. An empty
  script is a store that raises on its own constraints only.
\<close>

datatype fault = IntegrityFault | OperationalFault

fun fault_error :: "fault \<Rightarrow> error" where
  "fault_error IntegrityFault = DBIntegrityError"
| "fault_error OperationalFault = OperationalError"

record session =
  committed :: db
  working :: db
  script :: "fault option list"

definition open_session :: "db \<Rightarrow> fault option list \<Rightarrow> session" where
  "open_session d fs = \<lparr>committed = d, working = d, script = fs\<rparr>"

definition next_fault :: "session \<Rightarrow> fault option \<times> session" where
  "next_fault s =
     (case script s of
        [] \<Rightarrow> (None, s)
      | f # fs \<Rightarrow> (f, s\<lparr>script := fs\<rparr>))"

text \<open>\<^verbatim>\<open>Query.one()\<close> and \<^verbatim>\<open>Query.one_or_none()\<close> on the rows a filter selects.\<close>

fun one :: "'a list \<Rightarrow> error + 'a" where
  "one [] = Inl NoRowFound"
| "one [x] = Inr x"
| "one (x # y # zs) = Inl MultipleResultsFound"

fun one_or_none :: "'a list \<Rightarrow> error + 'a option" where
  "one_or_none [] = Inr None"
| "one_or_none [x] = Inr (Some x)"
| "one_or_none (x # y # zs) = Inl MultipleResultsFound"

text \<open>
  An integer primary key is assigned by the INSERT: one more than the largest key of the
  table (1 on an empty table).
\<close>

definition new_id :: "int list \<Rightarrow> int" where
  "new_id ids = fold max ids 0 + 1"

text \<open>\<^verbatim>\<open>Session.commit()\<close> once the pending rows are flushed, and \<^verbatim>\<open>Session.rollback()\<close>.\<close>

definition commit :: "session \<Rightarrow> session \<times> (error + unit)" where
  "commit s =
     (case next_fault s of
        (Some f, s1) \<Rightarrow> (s1, Inl (fault_error f))
      | (None, s1) \<Rightarrow> (s1\<lparr>committed := working s1\<rparr>, Inr ()))"

definition rollback :: "session \<Rightarrow> session" where
  "rollback s = s\<lparr>working := committed s\<rparr>"

text \<open>
  \<^verbatim>\<open>Session.add(row)\<close> together with the INSERT that the next flush emits for it (the
  session is created with \<^verbatim>\<open>autoflush=False\<close>, and every \<^verbatim>\<open>add\<close> of the service
  is followed at once by \<^verbatim>\<open>flush()\<close> or \<^verbatim>\<open>commit()\<close>). The INSERT raises
  SQLAlchemy's IntegrityError on the table's constraints: \<^verbatim>\<open>unique_broker_per_dataset\<close>
  on \<^verbatim>\<open>broker_name\<close>, \<^verbatim>\<open>unique_topic_per_broker\<close> on
  \<^verbatim>\<open>(topic_name, broker_id)\<close>, and the foreign keys.
\<close>

definition insert_broker :: "session \<Rightarrow> BrokerDetails \<Rightarrow> session \<times> (error + BrokerDetails)" where
  "insert_broker s row =
     (case next_fault s of
        (Some f, s1) \<Rightarrow> (s1, Inl (fault_error f))
      | (None, s1) \<Rightarrow>
          if broker_name row \<in> set (map broker_name (brokers (working s1)))
          then (s1, Inl DBIntegrityError)
          else
            let row' = row\<lparr>broker_details_id :=
                         new_id (map broker_details_id (brokers (working s1)))\<rparr>
            in (s1\<lparr>working := (working s1)\<lparr>brokers := brokers (working s1) @ [row']\<rparr>\<rparr>,
                Inr row'))"

section \<open>Broker registry\<close>

text \<open>
  \<^verbatim>\<open>BrokerBase\<close>: the request body of a broker registration. Its \<^verbatim>\<open>ip\<close> field has
  the type \<^verbatim>\<open>IPvAnyAddress\<close> and its \<^verbatim>\<open>port\<close> is declared \<^verbatim>\<open>gt=0\<close>, so the
  service only ever receives a parsed address; \<open>validate_broker_ip\<close> turns it into its
  text.
\<close>

record BrokerBase =
  name :: string
  ip :: ip_address
  port :: int

definition validate_broker_ip :: "ip_address \<Rightarrow> ip_address" where
  "validate_broker_ip a = a"

text \<open>
  The body of the \<^verbatim>\<open>try\<close> block of \<^verbatim>\<open>register_broker\<close>. Here and below the
  reading of the clock, \<^verbatim>\<open>datetime.utcnow()\<close>, is the argument \<open>now\<close>, and the id of
  a row that is not inserted yet is written 0 until the INSERT assigns it.
\<close>

definition register_broker_try ::
  "datetime \<Rightarrow> session \<Rightarrow> BrokerBase \<Rightarrow> session \<times> (error + BrokerDetails)" where
  "register_broker_try now s data =
     (let broker_details = \<lparr>broker_details_id = 0,
                             broker_name = name data,
                             broker_ip = validate_broker_ip (ip data),
                             broker_port = port data,
                             broker_creation_date = now\<rparr>
      in case insert_broker s broker_details of
           (s1, Inl e) \<Rightarrow> (s1, Inl e)
         | (s1, Inr row) \<Rightarrow>
             (case commit s1 of
                (s2, Inl e) \<Rightarrow> (s2, Inl e)
              | (s2, Inr u) \<Rightarrow> (s2, Inr row)))"

text \<open>
  Its handlers: on SQLAlchemy's IntegrityError the session is rolled back, the broker of
  that name is queried with \<^verbatim>\<open>one()\<close> and the application's IntegrityError is raised
  with its id; every other exception rolls back and is raised again.
\<close>

definition register_broker :: "datetime \<Rightarrow> session \<Rightarrow> BrokerBase \<Rightarrow> session \<times> (error + BrokerDetails)" where
  "register_broker now s data =
     (case register_broker_try now s data of
        (s1, Inr r) \<Rightarrow> (s1, Inr r)
      | (s1, Inl DBIntegrityError) \<Rightarrow>
          (let s2 = rollback s1
           in case one (filter (\<lambda>b. broker_name b = name data) (brokers (working s2))) of
                Inl e \<Rightarrow> (s2, Inl e)
              | Inr existing_broker \<Rightarrow>
                  (s2, Inl (IntegrityError
                             (Broker_id_already_exists (broker_details_id existing_broker)))))
      | (s1, Inl e) \<Rightarrow> (rollback s1, Inl e))"

section \<open>Topic registry\<close>

text \<open>\<^verbatim>\<open>TopicBase\<close>: the request body of a topic registration.\<close>

record TopicBase =
  topic_base_name :: string
  schema_definition :: json

definition insert_topic :: "session \<Rightarrow> TopicDetails \<Rightarrow> session \<times> (error + TopicDetails)" where
  "insert_topic s row =
     (case next_fault s of
        (Some f, s1) \<Rightarrow> (s1, Inl (fault_error f))
      | (None, s1) \<Rightarrow>
          if (topic_name row, broker_id row)
               \<in> set (map (\<lambda>t. (topic_name t, broker_id t)) (topics (working s1)))
             \<or> broker_id row \<notin> set (map broker_details_id (brokers (working s1)))
          then (s1, Inl DBIntegrityError)
          else
            let row' = row\<lparr>topic_details_id :=
                         new_id (map topic_details_id (topics (working s1)))\<rparr>
            in (s1\<lparr>working := (working s1)\<lparr>topics := topics (working s1) @ [row']\<rparr>\<rparr>,
                Inr row'))"

text \<open>The body of the \<^verbatim>\<open>try\<close> block of \<^verbatim>\<open>register_topic\<close>.\<close>

definition register_topic_try ::
  "datetime \<Rightarrow> session \<Rightarrow> int \<Rightarrow> TopicBase \<Rightarrow> session \<times> (error + TopicDetails)" where
  "register_topic_try now s bid data =
     (case one_or_none (filter (\<lambda>b. broker_details_id b = bid) (brokers (working s))) of
        Inl e \<Rightarrow> (s, Inl e)
      | Inr None \<Rightarrow> (s, Inl (NoResultFound (Broker_with_name_not_found bid)))
      | Inr (Some broker_info) \<Rightarrow>
          (let topic_details = \<lparr>topic_details_id = 0,
                                topic_name = topic_base_name data,
                                topic_schema = schema_definition data,
                                broker_id = bid,
                                topic_creation_date = now\<rparr>
           in case insert_topic s topic_details of
                (s1, Inl e) \<Rightarrow> (s1, Inl e)
              | (s1, Inr row) \<Rightarrow>
                  (case commit s1 of
                     (s2, Inl e) \<Rightarrow> (s2, Inl e)
                   | (s2, Inr u) \<Rightarrow> (s2, Inr row))))"

text \<open>
  Its handlers, in the order of the \<^verbatim>\<open>except\<close> clauses: SQLAlchemy's IntegrityError
  rolls back and looks the existing topic up by \<^verbatim>\<open>topic_name == data.name\<close> alone,
  with \<^verbatim>\<open>one()\<close>; \<^verbatim>\<open>NoRowFound\<close> becomes the application's NoResultFound;
  everything else rolls back and is raised again.
\<close>

definition register_topic ::
  "datetime \<Rightarrow> session \<Rightarrow> int \<Rightarrow> TopicBase \<Rightarrow> session \<times> (error + TopicDetails)" where
  "register_topic now s bid data =
     (case register_topic_try now s bid data of
        (s1, Inr r) \<Rightarrow> (s1, Inr r)
      | (s1, Inl e) \<Rightarrow>
          if e = DBIntegrityError then
            (let s2 = rollback s1
             in case one (filter (\<lambda>t. topic_name t = topic_base_name data)
                            (topics (working s2))) of
                  Inl e' \<Rightarrow> (s2, Inl e')
                | Inr existing_topic \<Rightarrow>
                    (s2, Inl (IntegrityError
                               (Topic_id_already_exists (topic_details_id existing_topic)))))
          else if is_NoRowFound e then
            (s1, Inl (NoResultFound (Broker_Id_not_found bid)))
          else (rollback s1, Inl e))"

section \<open>Dataset-topic linker\<close>

text \<open>
  \<^verbatim>\<open>DatasetBrokerTopicBase\<close> (the request), \<^verbatim>\<open>DatasetInfoDetails\<close> and
  \<^verbatim>\<open>DatasetBrokerTopicResponse\<close> (the composite view, its fields prefixed with
  \<open>response_\<close>). \<^verbatim>\<open>BrokerResponse\<close> and \<^verbatim>\<open>TopicResponse\<close> have the
  columns of their rows, so the rows stand for them.
\<close>

record DatasetBrokerTopicBase =
  dataset_type :: int
  request_name :: string
  request_description :: string
  request_broker_id :: int
  request_topic_id :: int

record DatasetInfoDetails =
  details_id :: int
  details_dataset_name :: string
  details_description :: string
  details_train_and_inference_type :: int
  details_data_source_type :: int

record DatasetBrokerTopicResponse =
  response_dataset :: DatasetInfoDetails
  response_broker_details :: BrokerDetails
  response_topic_details :: TopicDetails

text \<open>
  The INSERT of a dataset row checks the two \<^verbatim>\<open>CheckConstraint\<close>s of the table; the
  INSERT of a link row checks its two foreign keys.
\<close>

definition insert_dataset :: "session \<Rightarrow> DatasetInfo \<Rightarrow> session \<times> (error + DatasetInfo)" where
  "insert_dataset s row =
     (case next_fault s of
        (Some f, s1) \<Rightarrow> (s1, Inl (fault_error f))
      | (None, s1) \<Rightarrow>
          if train_and_inference_type row \<notin> {0, 1, 2} \<or> data_source_type row \<notin> {0, 1, 2}
          then (s1, Inl DBIntegrityError)
          else
            let row' = row\<lparr>dataset_info_id :=
                         new_id (map dataset_info_id (datasets (working s1)))\<rparr>
            in (s1\<lparr>working := (working s1)\<lparr>datasets := datasets (working s1) @ [row']\<rparr>\<rparr>,
                Inr row'))"

definition insert_dataset_topic ::
  "session \<Rightarrow> DatasetTopicDetails \<Rightarrow> session \<times> (error + DatasetTopicDetails)" where
  "insert_dataset_topic s row =
     (case next_fault s of
        (Some f, s1) \<Rightarrow> (s1, Inl (fault_error f))
      | (None, s1) \<Rightarrow>
          if topic_id row \<notin> set (map topic_details_id (topics (working s1)))
             \<or> dataset_id row \<notin> set (map dataset_info_id (datasets (working s1)))
          then (s1, Inl DBIntegrityError)
          else
            let row' = row\<lparr>dataset_topic_details_id :=
                         new_id (map dataset_topic_details_id (dataset_topics (working s1)))\<rparr>
            in (s1\<lparr>working :=
                      (working s1)\<lparr>dataset_topics := dataset_topics (working s1) @ [row']\<rparr>\<rparr>,
                Inr row'))"

text \<open>
  \<^verbatim>\<open>dataset_message_response\<close> reads five attributes of its first argument, which is a
  \<^verbatim>\<open>DatasetInfoDetails\<close> on the registration path and the ORM row on the read path;
  \<open>dataset_info_attributes\<close> is that reading of the row.
\<close>

definition dataset_info_attributes :: "DatasetInfo \<Rightarrow> DatasetInfoDetails" where
  "dataset_info_attributes d =
     \<lparr>details_id = dataset_info_id d,
      details_dataset_name = dataset_name d,
      details_description = description d,
      details_train_and_inference_type = train_and_inference_type d,
      details_data_source_type = data_source_type d\<rparr>"

definition dataset_message_response ::
  "DatasetInfoDetails \<Rightarrow> BrokerDetails \<Rightarrow> TopicDetails \<Rightarrow> DatasetBrokerTopicResponse" where
  "dataset_message_response dataset_detail broker_detail topic_detail =
     \<lparr>response_dataset =
        \<lparr>details_id = details_id dataset_detail,
         details_dataset_name = details_dataset_name dataset_detail,
         details_description = details_description dataset_detail,
         details_train_and_inference_type = details_train_and_inference_type dataset_detail,
         details_data_source_type = details_data_source_type dataset_detail\<rparr>,
      response_broker_details =
        \<lparr>broker_details_id = broker_details_id broker_detail,
         broker_name = broker_name broker_detail,
         broker_ip = broker_ip broker_detail,
         broker_port = broker_port broker_detail,
         broker_creation_date = broker_creation_date broker_detail\<rparr>,
      response_topic_details =
        \<lparr>topic_details_id = topic_details_id topic_detail,
         topic_name = topic_name topic_detail,
         topic_schema = topic_schema topic_detail,
         broker_id = broker_id topic_detail,
         topic_creation_date = topic_creation_date topic_detail\<rparr>\<rparr>"

text \<open>The body of the \<^verbatim>\<open>try\<close> block of \<^verbatim>\<open>register_dataset_message_details\<close>.\<close>

definition register_dataset_message_details_try ::
  "datetime \<Rightarrow> session \<Rightarrow> DatasetBrokerTopicBase
     \<Rightarrow> session \<times> (error + DatasetBrokerTopicResponse)" where
  "register_dataset_message_details_try now s data =
     (case one_or_none (filter (\<lambda>b. broker_details_id b = request_broker_id data)
                          (brokers (working s))) of
        Inl e \<Rightarrow> (s, Inl e)
      | Inr None \<Rightarrow>
          (s, Inl (NoResultFound (Broker_with_name_not_found (request_broker_id data))))
      | Inr (Some broker_info) \<Rightarrow>
     (case one_or_none (filter (\<lambda>t. topic_details_id t = request_topic_id data)
                          (topics (working s))) of
        Inl e \<Rightarrow> (s, Inl e)
      | Inr None \<Rightarrow>
          (s, Inl (NoResultFound (Topic_with_name_not_found (request_topic_id data))))
      | Inr (Some topic_info) \<Rightarrow>
     (case insert_dataset s
             \<lparr>dataset_info_id = 0,
              train_and_inference_type = dataset_type data,
              data_source_type = BROKER_DATA_SOURCE_TYPE,
              dataset_name = request_name data,
              description = request_description data,
              user_id = USER_ID,
              register_date_time = now,
              last_modified_time = now,
              last_modified_user_id = USER_ID\<rparr> of
        (s1, Inl e) \<Rightarrow> (s1, Inl e)
      | (s1, Inr dataset_info) \<Rightarrow>
     (case insert_dataset_topic s1
             \<lparr>dataset_topic_details_id = 0,
              topic_id = request_topic_id data,
              dataset_id = dataset_info_id dataset_info,
              link_creation_date = now\<rparr> of
        (s2, Inl e) \<Rightarrow> (s2, Inl e)
      | (s2, Inr dataset_topic_info) \<Rightarrow>
     (case commit s2 of
        (s3, Inl e) \<Rightarrow> (s3, Inl e)
      | (s3, Inr u) \<Rightarrow>
          (s3, Inr (dataset_message_response
                      \<lparr>details_id = dataset_info_id dataset_info,
                       details_dataset_name = dataset_name dataset_info,
                       details_description = description dataset_info,
                       details_train_and_inference_type =
                         train_and_inference_type dataset_info,
                       details_data_source_type = data_source_type dataset_info\<rparr>
                      broker_info topic_info)))))))"

text \<open>
  Its handlers: SQLAlchemy's IntegrityError rolls back and raises the application's
  IntegrityError; every other exception (the NoResultFound raised in the block among them)
  rolls back and is raised again.
\<close>

definition register_dataset_message_details ::
  "datetime \<Rightarrow> session \<Rightarrow> DatasetBrokerTopicBase
     \<Rightarrow> session \<times> (error + DatasetBrokerTopicResponse)" where
  "register_dataset_message_details now s data =
     (case register_dataset_message_details_try now s data of
        (s1, Inr r) \<Rightarrow> (s1, Inr r)
      | (s1, Inl e) \<Rightarrow>
          if e = DBIntegrityError
          then (rollback s1, Inl (IntegrityError Broker_already_Exists))
          else (rollback s1, Inl e))"

text \<open>
  \<^verbatim>\<open>fetch_dataset_message_details\<close>: the join of dataset, link, topic and broker
  on the three join conditions, restricted to the rows of the dataset id (the
  \<^verbatim>\<open>filter\<close> of the query, a condition on the dataset row alone), read with
  \<^verbatim>\<open>one()\<close>.
\<close>

definition dataset_message_join :: "db \<Rightarrow> int \<Rightarrow> (DatasetInfo \<times> BrokerDetails \<times> TopicDetails) list" where
  "dataset_message_join w did =
     [(d, b, t).
        d \<leftarrow> datasets w, dataset_info_id d = did,
        l \<leftarrow> dataset_topics w, dataset_info_id d = dataset_id l,
        t \<leftarrow> topics w, topic_id l = topic_details_id t,
        b \<leftarrow> brokers w, broker_id t = broker_details_id b]"

definition fetch_dataset_message_details ::
  "session \<Rightarrow> int \<Rightarrow> session \<times> (error + DatasetBrokerTopicResponse)" where
  "fetch_dataset_message_details s did =
     (case one (dataset_message_join (working s) did) of
        Inr (d, b, t) \<Rightarrow>
          (s, Inr (dataset_message_response (dataset_info_attributes d) b t))
      | Inl e \<Rightarrow>
          if is_NoRowFound e then (s, Inl (NoResultFound (Dataset_not_found_for_the_id did)))
          else if e = DBIntegrityError
          then (rollback s, Inl (IntegrityError Broker_already_Exists))
          else (rollback s, Inl e))"

section \<open>Partial update of a broker\<close>

text \<open>
  \<^verbatim>\<open>BrokerUpdate\<close>: every field is optional. \<^verbatim>\<open>update_data.dict(by_alias=False)\<close>
  lists the three fields under their attribute names, with \<open>None\<close> for a field the
  caller left out.
\<close>

record BrokerUpdate =
  update_broker_name :: "string option"
  update_broker_ip :: "ip_address option"
  update_broker_port :: "int option"

datatype attribute_value = StrValue string | IntValue int

definition BrokerUpdate_dict :: "BrokerUpdate \<Rightarrow> (string \<times> attribute_value option) list" where
  "BrokerUpdate_dict u =
     [(''broker_name'', map_option StrValue (update_broker_name u)),
      (''broker_ip'', map_option StrValue (update_broker_ip u)),
      (''broker_port'', map_option IntValue (update_broker_port u))]"

text \<open>
  \<^verbatim>\<open>setattr(record, key, value)\<close> on a \<^verbatim>\<open>BrokerDetails\<close> object: a mapped
  column takes the value (\<^verbatim>\<open>broker_ip\<close> through its validator); any other key
  is a plain Python attribute and leaves the row as it is.
\<close>

definition setattr_BrokerDetails ::
  "BrokerDetails \<Rightarrow> string \<Rightarrow> attribute_value \<Rightarrow> BrokerDetails" where
  "setattr_BrokerDetails r key v =
     (if key = ''broker_name'' then
        (case v of StrValue x \<Rightarrow> r\<lparr>broker_name := x\<rparr> | IntValue n \<Rightarrow> r)
      else if key = ''broker_ip'' then
        (case v of StrValue x \<Rightarrow> r\<lparr>broker_ip := validate_broker_ip x\<rparr> | IntValue n \<Rightarrow> r)
      else if key = ''broker_port'' then
        (case v of IntValue n \<Rightarrow> r\<lparr>broker_port := n\<rparr> | StrValue x \<Rightarrow> r)
      else r)"

text \<open>The loop of \<^verbatim>\<open>_update_record\<close> over the items of the dictionary.\<close>

definition set_supplied_attributes ::
  "(string \<times> attribute_value option) list \<Rightarrow> BrokerDetails \<Rightarrow> BrokerDetails" where
  "set_supplied_attributes items r =
     fold (\<lambda>(key, val) r'. case val of None \<Rightarrow> r' | Some v \<Rightarrow> setattr_BrokerDetails r' key v)
          items r"

text \<open>
  The UPDATE that the flush of \<^verbatim>\<open>commit()\<close> emits for a changed broker row; an
  unchanged row emits no statement. The UPDATE raises on \<^verbatim>\<open>unique_broker_per_dataset\<close>.
\<close>

definition update_broker_row :: "session \<Rightarrow> BrokerDetails \<Rightarrow> BrokerDetails \<Rightarrow> session \<times> (error + unit)" where
  "update_broker_row s old new =
     (if new = old then (s, Inr ())
      else
        case next_fault s of
          (Some f, s1) \<Rightarrow> (s1, Inl (fault_error f))
        | (None, s1) \<Rightarrow>
            if \<exists>b \<in> set (brokers (working s1)).
                 broker_details_id b \<noteq> broker_details_id old \<and> broker_name b = broker_name new
            then (s1, Inl DBIntegrityError)
            else
              (s1\<lparr>working := (working s1)\<lparr>brokers :=
                     map (\<lambda>b. if broker_details_id b = broker_details_id old then new else b)
                         (brokers (working s1))\<rparr>\<rparr>,
               Inr ()))"

text \<open>
  \<^verbatim>\<open>_update_record\<close> at the entity \<^verbatim>\<open>BrokerDetails\<close>, which is all that
  \<^verbatim>\<open>update_broker\<close> does. None of its handlers rolls back.
\<close>

definition update_record_try ::
  "session \<Rightarrow> int \<Rightarrow> BrokerUpdate \<Rightarrow> session \<times> (error + BrokerDetails)" where
  "update_record_try s record_id update_data =
     (case one (filter (\<lambda>b. broker_details_id b = record_id) (brokers (working s))) of
        Inl e \<Rightarrow> (s, Inl e)
      | Inr record \<Rightarrow>
          (let record' = set_supplied_attributes (BrokerUpdate_dict update_data) record
           in case update_broker_row s record record' of
                (s1, Inl e) \<Rightarrow> (s1, Inl e)
              | (s1, Inr u) \<Rightarrow>
                  (case commit s1 of
                     (s2, Inl e) \<Rightarrow> (s2, Inl e)
                   | (s2, Inr u') \<Rightarrow> (s2, Inr record'))))"

definition update_record ::
  "session \<Rightarrow> int \<Rightarrow> BrokerUpdate \<Rightarrow> session \<times> (error + BrokerDetails)" where
  "update_record s record_id update_data =
     (case update_record_try s record_id update_data of
        (s1, Inr r) \<Rightarrow> (s1, Inr r)
      | (s1, Inl e) \<Rightarrow>
          if e = DBIntegrityError then
            (s1, Inl (IntegrityError (No_entity_found_for_ID ''BrokerDetails'' record_id)))
          else if is_NoRowFound e then
            (s1, Inl (NoResultFound (No_entity_found_for_ID ''BrokerDetails'' record_id)))
          else (s1, Inl e))"

definition update_broker ::
  "session \<Rightarrow> int \<Rightarrow> BrokerUpdate \<Rightarrow> session \<times> (error + BrokerDetails)" where
  "update_broker s bid broker_data = update_record s bid broker_data"

section \<open>Deregistration\<close>

text \<open>
  \<^verbatim>\<open>Session.delete(row)\<close> with the DELETE statements of the next flush. The
  relationship \<^verbatim>\<open>TopicDetails.dataset_topic_info\<close> is declared with
  \<^verbatim>\<open>cascade="all, delete"\<close>, and so is \<^verbatim>\<open>DatasetInfo.dataset_topic_mapping\<close>: deleting
  a topic or a dataset through the session deletes the link rows that reference it.
\<close>

definition delete_topic :: "session \<Rightarrow> TopicDetails \<Rightarrow> session \<times> (error + unit)" where
  "delete_topic s row =
     (case next_fault s of
        (Some f, s1) \<Rightarrow> (s1, Inl (fault_error f))
      | (None, s1) \<Rightarrow>
          (s1\<lparr>working := (working s1)
                 \<lparr>topics := filter (\<lambda>t. topic_details_id t \<noteq> topic_details_id row)
                                   (topics (working s1)),
                  dataset_topics := filter (\<lambda>l. topic_id l \<noteq> topic_details_id row)
                                           (dataset_topics (working s1))\<rparr>\<rparr>,
           Inr ()))"

definition delete_dataset_topic :: "session \<Rightarrow> DatasetTopicDetails \<Rightarrow> session \<times> (error + unit)" where
  "delete_dataset_topic s row =
     (case next_fault s of
        (Some f, s1) \<Rightarrow> (s1, Inl (fault_error f))
      | (None, s1) \<Rightarrow>
          (s1\<lparr>working := (working s1)
                 \<lparr>dataset_topics :=
                    filter (\<lambda>l. dataset_topic_details_id l \<noteq> dataset_topic_details_id row)
                           (dataset_topics (working s1))\<rparr>\<rparr>,
           Inr ()))"

definition delete_dataset :: "session \<Rightarrow> DatasetInfo \<Rightarrow> session \<times> (error + unit)" where
  "delete_dataset s row =
     (case next_fault s of
        (Some f, s1) \<Rightarrow> (s1, Inl (fault_error f))
      | (None, s1) \<Rightarrow>
          (s1\<lparr>working := (working s1)
                 \<lparr>datasets := filter (\<lambda>d. dataset_info_id d \<noteq> dataset_info_id row)
                                     (datasets (working s1)),
                  dataset_topics := filter (\<lambda>l. dataset_id l \<noteq> dataset_info_id row)
                                           (dataset_topics (working s1))\<rparr>\<rparr>,
           Inr ()))"

definition topic_deregister_try :: "session \<Rightarrow> int \<Rightarrow> session \<times> (error + unit)" where
  "topic_deregister_try s tid =
     (case one (filter (\<lambda>t. topic_details_id t = tid) (topics (working s))) of
        Inl e \<Rightarrow> (s, Inl e)
      | Inr topic_details \<Rightarrow>
          (case delete_topic s topic_details of
             (s1, Inl e) \<Rightarrow> (s1, Inl e)
           | (s1, Inr u) \<Rightarrow> commit s1))"

definition topic_deregister :: "session \<Rightarrow> int \<Rightarrow> session \<times> (error + unit)" where
  "topic_deregister s tid =
     (case topic_deregister_try s tid of
        (s1, Inr u) \<Rightarrow> (s1, Inr u)
      | (s1, Inl e) \<Rightarrow>
          if is_NoRowFound e then (s1, Inl (NoResultFound (Topic_not_found_for_the_id tid)))
          else (s1, Inl e))"

definition dataset_message_deregister_try :: "session \<Rightarrow> int \<Rightarrow> session \<times> (error + unit)" where
  "dataset_message_deregister_try s did =
     (case one (filter (\<lambda>d. dataset_info_id d = did
                             \<and> data_source_type d = BROKER_DATA_SOURCE_TYPE)
                  (datasets (working s))) of
        Inl e \<Rightarrow> (s, Inl e)
      | Inr dataset_details \<Rightarrow>
     (case one_or_none (filter (\<lambda>l. dataset_id l = dataset_info_id dataset_details)
                          (dataset_topics (working s))) of
        Inl e \<Rightarrow> (s, Inl e)
      | Inr topic_details \<Rightarrow>
     (case (case topic_details of
              None \<Rightarrow> (s, Inr ())
            | Some l \<Rightarrow> delete_dataset_topic s l) of
        (s1, Inl e) \<Rightarrow> (s1, Inl e)
      | (s1, Inr u) \<Rightarrow>
     (case delete_dataset s1 dataset_details of
        (s2, Inl e) \<Rightarrow> (s2, Inl e)
      | (s2, Inr u') \<Rightarrow> commit s2))))"

definition dataset_message_deregister :: "session \<Rightarrow> int \<Rightarrow> session \<times> (error + unit)" where
  "dataset_message_deregister s did =
     (case dataset_message_deregister_try s did of
        (s1, Inr u) \<Rightarrow> (s1, Inr u)
      | (s1, Inl e) \<Rightarrow>
          if is_NoRowFound e then (s1, Inl (NoResultFound (Dataset_not_found_for_id did)))
          else (rollback s1, Inl e))"

section \<open>Stream reader\<close>

text \<open>
  \<^verbatim>\<open>BrokerTopicDetails\<close>, the connection parameters that the linker resolves, and
  \<^verbatim>\<open>DatasetTopicData\<close>, the stream window returned to the caller.
\<close>

record BrokerTopicDetails =
  stream_topic_name :: string
  stream_broker_ip :: ip_address
  stream_broker_port :: int

record DatasetTopicData =
  data_dataset_id :: int
  records :: "json list"
  record_count :: int
  data_topic_name :: string

datatype OffsetReset = earliest | latest

definition get_topic_and_broker_details :: "session \<Rightarrow> int \<Rightarrow> error + BrokerTopicDetails" where
  "get_topic_and_broker_details s did =
     (case one_or_none (filter (\<lambda>l. dataset_id l = did) (dataset_topics (working s))) of
        Inl e \<Rightarrow> Inl e
      | Inr None \<Rightarrow> Inl (NoResultFound (No_topic_association_for_dataset_ID did))
      | Inr (Some dataset_topic_detail) \<Rightarrow>
     (case one_or_none (filter (\<lambda>t. topic_details_id t = topic_id dataset_topic_detail)
                          (topics (working s))) of
        Inl e \<Rightarrow> Inl e
      | Inr None \<Rightarrow> Inl (NoResultFound (Topic_not_found_for_ID (topic_id dataset_topic_detail)))
      | Inr (Some topic_detail) \<Rightarrow>
     (case one_or_none (filter (\<lambda>b. broker_details_id b = broker_id topic_detail)
                          (brokers (working s))) of
        Inl e \<Rightarrow> Inl e
      | Inr None \<Rightarrow> Inl (NoResultFound (Broker_not_found_for_ID (broker_id topic_detail)))
      | Inr (Some broker_detail) \<Rightarrow>
          Inr \<lparr>stream_topic_name = topic_name topic_detail,
               stream_broker_ip = broker_ip broker_detail,
               stream_broker_port = broker_port broker_detail\<rparr>)))"

text \<open>
  The stream client is outside the repository. A consumer is what the service constructs
  it from: the topic, the bootstrap server and the offset policy. The client's side is a
  pair of functions: \<open>connect\<close> says whether constructing the consumer raises, and
  \<open>poll\<close> is \<^verbatim>\<open>consumer.poll(timeout_ms, max_records)\<close>, which raises or
  returns the decoded records of each partition (the deserializer
  \<^verbatim>\<open>json.loads(x.decode("utf-8"))\<close> runs inside it). What happens to consumer
  sessions is kept in a log of events; \<open>open_consumers\<close> reads from a log the sessions
  that were opened and not closed since.
\<close>

type_synonym partition = nat

record KafkaConsumer =
  consumer_topic :: string
  bootstrap_servers :: "(ip_address \<times> int) list"
  auto_offset_reset :: OffsetReset

record kafka =
  connect :: "KafkaConsumer \<Rightarrow> error option"
  poll :: "KafkaConsumer \<Rightarrow> int \<Rightarrow> int option \<Rightarrow> error + (partition \<times> json list) list"

datatype consumer_event = Opened KafkaConsumer | Closed KafkaConsumer

definition open_consumers :: "consumer_event list \<Rightarrow> KafkaConsumer list" where
  "open_consumers log =
     fold (\<lambda>e cs. case e of Opened c \<Rightarrow> c # cs | Closed c \<Rightarrow> remove1 c cs) log []"

text \<open>The consumer that \<^verbatim>\<open>__fetch_stream_data\<close> constructs.\<close>

definition consumer_for :: "BrokerTopicDetails \<Rightarrow> OffsetReset \<Rightarrow> KafkaConsumer" where
  "consumer_for topic_details offset_reset =
     \<lparr>consumer_topic = stream_topic_name topic_details,
      bootstrap_servers = [(stream_broker_ip topic_details, stream_broker_port topic_details)],
      auto_offset_reset = offset_reset\<rparr>"

text \<open>
  \<^verbatim>\<open>__fetch_stream_data\<close>. Its parameter \<^verbatim>\<open>no_of_records\<close> is declared with the
  default \<^verbatim>\<open>const.DEFAULT_STREAM_DATA_COUNT\<close>, which Python uses only when the
  argument is left out of the call; the function hands the argument it received to
  \<^verbatim>\<open>poll\<close>. The consumer is constructed before the \<^verbatim>\<open>try\<close>; the
  \<^verbatim>\<open>except\<close> clause logs and raises again; the \<^verbatim>\<open>finally\<close> clause closes the
  consumer.
\<close>

definition fetch_stream_data ::
  "kafka \<Rightarrow> consumer_event list \<Rightarrow> BrokerTopicDetails \<Rightarrow> OffsetReset \<Rightarrow> int option
     \<Rightarrow> consumer_event list \<times> (error + json list)" where
  "fetch_stream_data k log topic_details offset_reset no_of_records =
     (let consumer = consumer_for topic_details offset_reset
      in case connect k consumer of
           Some e \<Rightarrow> (log, Inl e)
         | None \<Rightarrow>
             (let log1 = log @ [Opened consumer];
                  result =
                    (case poll k consumer STREAM_TIMEOUT no_of_records of
                       Inl e \<Rightarrow> Inl e
                     | Inr messages \<Rightarrow>
                         if messages = []
                         then Inl (NoMessagesFound
                                     (No_messages_in_stream_topic
                                        (stream_topic_name topic_details)))
                         else Inr (concat (map snd messages)))
              in (log1 @ [Closed consumer], result)))"

text \<open>
  \<^verbatim>\<open>fetch_dataset_topic_data\<close>: it passes its own \<^verbatim>\<open>no_of_records\<close> on in the call;
  \<^verbatim>\<open>NoRowFound\<close> becomes NoResultFound, everything else is raised again.
\<close>

definition fetch_dataset_topic_data ::
  "kafka \<Rightarrow> consumer_event list \<Rightarrow> session \<Rightarrow> int \<Rightarrow> int option \<Rightarrow> OffsetReset
     \<Rightarrow> consumer_event list \<times> (error + DatasetTopicData)" where
  "fetch_dataset_topic_data k log s did no_of_records offset_reset =
     (case (case get_topic_and_broker_details s did of
              Inl e \<Rightarrow> (log, Inl e)
            | Inr topic_details \<Rightarrow>
                (case fetch_stream_data k log topic_details offset_reset no_of_records of
                   (log1, Inl e) \<Rightarrow> (log1, Inl e)
                 | (log1, Inr recs) \<Rightarrow>
                     (log1, Inr \<lparr>data_dataset_id = did,
                                 records = recs,
                                 record_count = int (length recs),
                                 data_topic_name = stream_topic_name topic_details\<rparr>))) of
        (log1, Inr r) \<Rightarrow> (log1, Inr r)
      | (log1, Inl e) \<Rightarrow>
          if is_NoRowFound e then (log1, Inl (NoResultFound (Dataset_not_found_for_ID did)))
          else (log1, Inl e))"

text \<open>
  A stream client that behaves as the client library documents \<^verbatim>\<open>poll\<close>: the
  topic holds \<open>stream\<close>, partition by partition, and a poll returns up to
  \<open>max_records\<close> records of it, or up to the consumer's own limit
  \<open>max_poll_records\<close> when \<open>max_records\<close> is \<open>None\<close>. A partition from which
  nothing is taken is not a key of the result. The service constructs its consumer
  without \<^verbatim>\<open>max_poll_records\<close>, so the limit is a parameter here.
\<close>

fun take_records :: "nat \<Rightarrow> (partition \<times> json list) list \<Rightarrow> (partition \<times> json list) list" where
  "take_records n [] = []"
| "take_records n ((p, rs) # rest) =
     (if n = 0 \<or> rs = [] then take_records n rest
      else (p, take n rs) # take_records (n - length (take n rs)) rest)"

definition stream_client :: "nat \<Rightarrow> (partition \<times> json list) list \<Rightarrow> kafka" where
  "stream_client max_poll_records stream =
     \<lparr>connect = (\<lambda>c. None),
      poll = (\<lambda>c timeout_ms max_records.
                Inr (take_records
                       (case max_records of None \<Rightarrow> max_poll_records | Some n \<Rightarrow> nat n)
                       stream))\<rparr>"

section \<open>Integrity of the store\<close>

text \<open>
  What the schema guarantees of every state of the store: the two unique constraints,
  the primary keys and the foreign keys.
\<close>

definition unique_broker_per_dataset :: "db \<Rightarrow> bool" where
  "unique_broker_per_dataset d = distinct (map broker_name (brokers d))"

definition unique_topic_per_broker :: "db \<Rightarrow> bool" where
  "unique_topic_per_broker d = distinct (map (\<lambda>t. (topic_name t, broker_id t)) (topics d))"

definition primary_keys :: "db \<Rightarrow> bool" where
  "primary_keys d \<longleftrightarrow>
     distinct (map broker_details_id (brokers d)) \<and>
     distinct (map topic_details_id (topics d)) \<and>
     distinct (map dataset_info_id (datasets d)) \<and>
     distinct (map dataset_topic_details_id (dataset_topics d))"

definition foreign_keys :: "db \<Rightarrow> bool" where
  "foreign_keys d \<longleftrightarrow>
     set (map broker_id (topics d)) \<subseteq> set (map broker_details_id (brokers d)) \<and>
     set (map topic_id (dataset_topics d)) \<subseteq> set (map topic_details_id (topics d)) \<and>
     set (map dataset_id (dataset_topics d)) \<subseteq> set (map dataset_info_id (datasets d))"

text \<open>
  The store \<open>d'\<close> is the store \<open>d\<close> with exactly one more dataset row, of the broker
  source type, and exactly one more link row, which ties that dataset to the topic of
  the request; \<open>resp\<close> reports the id of the new dataset.
\<close>

definition dataset_and_link_added ::
  "db \<Rightarrow> DatasetBrokerTopicBase \<Rightarrow> db \<Rightarrow> DatasetBrokerTopicResponse \<Rightarrow> bool" where
  "dataset_and_link_added d data d' resp \<longleftrightarrow>
     (\<exists>row link.
        datasets d' = datasets d @ [row] \<and>
        dataset_topics d' = dataset_topics d @ [link] \<and>
        brokers d' = brokers d \<and> topics d' = topics d \<and>
        data_source_type row = BROKER_DATA_SOURCE_TYPE \<and>
        dataset_info_id row \<notin> set (map dataset_info_id (datasets d)) \<and>
        dataset_topic_details_id link \<notin> set (map dataset_topic_details_id (dataset_topics d)) \<and>
        dataset_id link = dataset_info_id row \<and>
        topic_id link = request_topic_id data \<and>
        details_id (response_dataset resp) = dataset_info_id row)"

text \<open>
  What a partial update may do to a broker row \<open>b\<close>, giving \<open>b'\<close>: the id and the
  creation date stay, a row of another id stays whole, and a field the patch does not
  supply stays.
\<close>

definition only_supplied_fields_changed ::
  "BrokerUpdate \<Rightarrow> int \<Rightarrow> BrokerDetails \<Rightarrow> BrokerDetails \<Rightarrow> bool" where
  "only_supplied_fields_changed u bid b b' \<longleftrightarrow>
     broker_details_id b' = broker_details_id b \<and>
     broker_creation_date b' = broker_creation_date b \<and>
     (broker_details_id b \<noteq> bid \<longrightarrow> b' = b) \<and>
     (update_broker_name u = None \<longrightarrow> broker_name b' = broker_name b) \<and>
     (update_broker_ip u = None \<longrightarrow> broker_ip b' = broker_ip b) \<and>
     (update_broker_port u = None \<longrightarrow> broker_port b' = broker_port b)"

text \<open>
  What the stream client guarantees of the dictionary a poll returns: a partition is a
  key of it only with at least one record.
\<close>

definition poll_contract :: "(partition \<times> json list) list \<Rightarrow> bool" where
  "poll_contract messages \<longleftrightarrow> (\<forall>(p, rs) \<in> set messages. rs \<noteq> [])"

section \<open>Example stores\<close>

text \<open>
  The empty store, and the store after this history: brokers \<open>broker-1\<close> and
  \<open>broker-2\<close> are registered, a topic \<open>telemetry\<close> is registered under each, the
  dataset \<open>sensor-ds\<close> is linked to the topic of \<open>broker-2\<close>, and a file-sourced
  dataset \<open>upload-ds\<close> exists beside it.
\<close>

definition empty_store :: db where
  "empty_store = \<lparr>brokers = [], topics = [], datasets = [], dataset_topics = []\<rparr>"

definition example_store :: db where
  "example_store =
     \<lparr>brokers =
        [\<lparr>broker_details_id = 1, broker_name = ''broker-1'', broker_ip = ''127.0.0.1'',
          broker_port = 9092, broker_creation_date = 5\<rparr>,
         \<lparr>broker_details_id = 2, broker_name = ''broker-2'', broker_ip = ''10.0.0.2'',
          broker_port = 9093, broker_creation_date = 6\<rparr>],
      topics =
        [\<lparr>topic_details_id = 1, topic_name = ''telemetry'', topic_schema = ''{}'',
          broker_id = 1, topic_creation_date = 7\<rparr>,
         \<lparr>topic_details_id = 2, topic_name = ''telemetry'', topic_schema = ''{}'',
          broker_id = 2, topic_creation_date = 7\<rparr>],
      datasets =
        [\<lparr>dataset_info_id = 1, train_and_inference_type = 0, data_source_type = 2,
          dataset_name = ''sensor-ds'', description = ''desc'', user_id = 0,
          register_date_time = 8, last_modified_time = 8, last_modified_user_id = 0\<rparr>,
         \<lparr>dataset_info_id = 2, train_and_inference_type = 1, data_source_type = 0,
          dataset_name = ''upload-ds'', description = ''file'', user_id = 0,
          register_date_time = 9, last_modified_time = 9, last_modified_user_id = 0\<rparr>],
      dataset_topics =
        [\<lparr>dataset_topic_details_id = 1, topic_id = 2, dataset_id = 1,
          link_creation_date = 8\<rparr>]\<rparr>"

section \<open>Properties\<close>

lemma new_id_greater: "i \<in> set ids \<Longrightarrow> i < new_id ids"
proof -
  have "\<And>a. a \<le> fold max ids a \<and> (\<forall>i \<in> set ids. i \<le> fold max ids a)"
  proof (induction ids)
    case Nil
    show ?case by simp
  next
    case (Cons x xs)
    have "max x a \<le> fold max xs (max x a)" using Cons by blast
    moreover have "\<forall>i \<in> set xs. i \<le> fold max xs (max x a)" using Cons by blast
    ultimately show ?case by auto
  qed
  then show "i \<in> set ids \<Longrightarrow> i < new_id ids"
    unfolding new_id_def by fastforce
qed

lemma new_id_fresh: "new_id ids \<notin> set ids"
  using new_id_greater by blast

lemma filter_key_unique:
  "distinct (map f xs) \<Longrightarrow> x \<in> set xs \<Longrightarrow> filter (\<lambda>y. f y = f x) xs = [x]"
proof (induction xs)
  case Nil
  then show ?case by simp
next
  case (Cons a xs)
  show ?case
  proof (cases "a = x")
    case True
    have "f x \<notin> f ` set xs" using Cons.prems(1) True by simp
    then have "filter (\<lambda>y. f y = f x) xs = []"
      by (auto simp: filter_empty_conv intro: rev_image_eqI)
    then show ?thesis using True by simp
  next
    case False
    then have mem: "x \<in> set xs" using Cons.prems(2) by simp
    have "f a \<noteq> f x" using Cons.prems(1) mem by auto
    moreover have "filter (\<lambda>y. f y = f x) xs = [x]"
      using Cons.IH Cons.prems(1) mem by simp
    ultimately show ?thesis by simp
  qed
qed

lemma filter_key_absent:
  "k \<notin> set (map f xs) \<Longrightarrow> filter (\<lambda>y. f y = k) xs = []"
  by (auto simp: filter_empty_conv)

lemma filter_key_unique':
  "distinct (map f xs) \<Longrightarrow> x \<in> set xs \<Longrightarrow> f x = k \<Longrightarrow> filter (\<lambda>y. f y = k) xs = [x]"
  using filter_key_unique [of f xs x] by auto

lemma distinct_map_eq: "distinct (map f xs) \<Longrightarrow> x \<in> set xs \<Longrightarrow> y \<in> set xs \<Longrightarrow> f x = f y \<Longrightarrow> x = y"
  by (meson distinct_map inj_on_def)

lemma one_Inr_mem: "one xs = Inr x \<Longrightarrow> xs = [x]"
  by (cases xs rule: one.cases) auto

lemma one_or_none_Some: "one_or_none xs = Inr (Some x) \<Longrightarrow> xs = [x]"
  by (cases xs rule: one_or_none.cases) auto

lemma one_or_none_None: "one_or_none xs = Inr None \<Longrightarrow> xs = []"
  by (cases xs rule: one_or_none.cases) auto

subsection \<open>Session statements\<close>

lemma next_fault_frame:
  "next_fault s = (f, s1) \<Longrightarrow> committed s1 = committed s \<and> working s1 = working s"
  by (auto simp: next_fault_def split: list.splits)

lemma rollback_committed: "committed (rollback s) = committed s"
  by (simp add: rollback_def)

lemma commit_Inl: "commit s = (s1, Inl e) \<Longrightarrow> committed s1 = committed s"
  by (auto simp: commit_def split: prod.splits option.splits dest: next_fault_frame)

lemma commit_Inr:
  "commit s = (s1, Inr u) \<Longrightarrow> committed s1 = working s \<and> working s1 = working s"
  by (auto simp: commit_def split: prod.splits option.splits dest: next_fault_frame)

lemma insert_dataset_committed:
  "insert_dataset s row = (s1, r) \<Longrightarrow> committed s1 = committed s"
  by (auto simp: insert_dataset_def Let_def split: prod.splits option.splits if_splits
      dest: next_fault_frame)

lemma insert_dataset_Inr:
  "insert_dataset s row = (s1, Inr row') \<Longrightarrow>
     row' = row\<lparr>dataset_info_id := new_id (map dataset_info_id (datasets (working s)))\<rparr> \<and>
     working s1 = (working s)\<lparr>datasets := datasets (working s) @ [row']\<rparr>"
  by (auto simp: insert_dataset_def Let_def split: prod.splits option.splits if_splits
      dest: next_fault_frame)

lemma insert_dataset_topic_committed:
  "insert_dataset_topic s row = (s1, r) \<Longrightarrow> committed s1 = committed s"
  by (auto simp: insert_dataset_topic_def Let_def split: prod.splits option.splits if_splits
      dest: next_fault_frame)

lemma insert_dataset_topic_Inr:
  "insert_dataset_topic s row = (s1, Inr row') \<Longrightarrow>
     row' = row\<lparr>dataset_topic_details_id :=
                  new_id (map dataset_topic_details_id (dataset_topics (working s)))\<rparr> \<and>
     working s1 = (working s)\<lparr>dataset_topics := dataset_topics (working s) @ [row']\<rparr>"
  by (auto simp: insert_dataset_topic_def Let_def split: prod.splits option.splits if_splits
      dest: next_fault_frame)


lemma delete_dataset_topic_committed:
  "delete_dataset_topic s row = (s1, r) \<Longrightarrow> committed s1 = committed s"
  by (auto simp: delete_dataset_topic_def split: prod.splits option.splits
      dest: next_fault_frame)

lemma delete_dataset_topic_Inr:
  "delete_dataset_topic s row = (s1, Inr u) \<Longrightarrow>
     working s1 = (working s)\<lparr>dataset_topics :=
        filter (\<lambda>l. dataset_topic_details_id l \<noteq> dataset_topic_details_id row)
               (dataset_topics (working s))\<rparr>"
  by (auto simp: delete_dataset_topic_def split: prod.splits option.splits
      dest: next_fault_frame)

lemma delete_dataset_committed:
  "delete_dataset s row = (s1, r) \<Longrightarrow> committed s1 = committed s"
  by (auto simp: delete_dataset_def split: prod.splits option.splits
      dest: next_fault_frame)

lemma delete_dataset_Inr:
  "delete_dataset s row = (s1, Inr u) \<Longrightarrow>
     working s1 = (working s)
        \<lparr>datasets := filter (\<lambda>d. dataset_info_id d \<noteq> dataset_info_id row)
                            (datasets (working s)),
         dataset_topics := filter (\<lambda>l. dataset_id l \<noteq> dataset_info_id row)
                                  (dataset_topics (working s))\<rparr>"
  by (auto simp: delete_dataset_def split: prod.splits option.splits
      dest: next_fault_frame)

lemma delete_topic_committed:
  "delete_topic s row = (s1, r) \<Longrightarrow> committed s1 = committed s"
  by (auto simp: delete_topic_def split: prod.splits option.splits
      dest: next_fault_frame)

lemma delete_topic_Inr:
  "delete_topic s row = (s1, Inr u) \<Longrightarrow>
     working s1 = (working s)
        \<lparr>topics := filter (\<lambda>t. topic_details_id t \<noteq> topic_details_id row)
                          (topics (working s)),
         dataset_topics := filter (\<lambda>l. topic_id l \<noteq> topic_details_id row)
                                  (dataset_topics (working s))\<rparr>"
  by (auto simp: delete_topic_def split: prod.splits option.splits
      dest: next_fault_frame)

subsection \<open>Broker registration\<close>

lemma register_broker_fresh:
  assumes "name data \<notin> set (map broker_name (brokers d))"
  shows "register_broker now (open_session d []) data =
           (let row = \<lparr>broker_details_id = new_id (map broker_details_id (brokers d)),
                       broker_name = name data,
                       broker_ip = ip data,
                       broker_port = port data,
                       broker_creation_date = now\<rparr>;
                d' = d\<lparr>brokers := brokers d @ [row]\<rparr>
            in (open_session d' [], Inr row))"
  using assms
  by (simp add: register_broker_def register_broker_try_def insert_broker_def commit_def
      next_fault_def open_session_def validate_broker_ip_def Let_def)

lemma register_broker_conflict:
  assumes "unique_broker_per_dataset d" and "b \<in> set (brokers d)"
    and "broker_name b = name data"
  shows "register_broker now (open_session d []) data =
           (open_session d [],
            Inl (IntegrityError (Broker_id_already_exists (broker_details_id b))))"
proof -
  have "filter (\<lambda>y. broker_name y = broker_name b) (brokers d) = [b]"
    using assms(1,2) unfolding unique_broker_per_dataset_def by (rule filter_key_unique)
  then have f: "filter (\<lambda>y. broker_name y = name data) (brokers d) = [b]"
    using assms(3) by simp
  have m: "name data \<in> broker_name ` set (brokers d)" using assms(2,3) by force
  show ?thesis
    using m f
    by (simp add: register_broker_def register_broker_try_def insert_broker_def
        next_fault_def open_session_def rollback_def Let_def)
qed

lemma register_broker_existing_name_any_script:
  assumes "name data \<in> set (map broker_name (brokers d))"
  shows "committed (fst (register_broker now (open_session d fs) data)) = d
         \<and> (\<exists>e. snd (register_broker now (open_session d fs) data) = Inl e)"
proof (cases fs)
  case Nil
  then show ?thesis
    using assms
    by (simp add: register_broker_def register_broker_try_def insert_broker_def
        next_fault_def open_session_def rollback_def Let_def split: sum.splits)
next
  case (Cons f fs')
  show ?thesis
  proof (cases f)
    case None
    then show ?thesis
      using assms Cons
      by (simp add: register_broker_def register_broker_try_def insert_broker_def
          next_fault_def open_session_def rollback_def Let_def split: sum.splits)
  next
    case (Some x)
    then show ?thesis
      using Cons
      by (cases x)
         (simp_all add: register_broker_def register_broker_try_def insert_broker_def
            next_fault_def open_session_def rollback_def Let_def split: sum.splits)
  qed
qed

text \<open>
  C5. On a store that keeps \<^verbatim>\<open>unique_broker_per_dataset\<close> and answers every
  statement, registering a broker under a name that no row carries succeeds and appends
  exactly one broker row, with a new id, leaving the other tables alone; a later
  registration under the same name, whatever its address and port, fails with the
  application's IntegrityError whose message carries the id of that first row, and the
  store stays as the first call left it. More generally, wherever a row \<open>b\<close> with the
  name exists the call fails with the IntegrityError for \<open>b\<close>'s id; and whatever the
  store answers to the statements, a call under an existing name fails and commits
  nothing.
\<close>

theorem register_broker_succeeds_once:
  assumes "unique_broker_per_dataset d"
  shows "(name data \<notin> set (map broker_name (brokers d)) \<longrightarrow>
            (\<exists>s1 row.
               register_broker now (open_session d []) data = (s1, Inr row) \<and>
               brokers (committed s1) = brokers d @ [row] \<and>
               topics (committed s1) = topics d \<and>
               datasets (committed s1) = datasets d \<and>
               dataset_topics (committed s1) = dataset_topics d \<and>
               broker_name row = name data \<and>
               broker_details_id row \<notin> set (map broker_details_id (brokers d)) \<and>
               unique_broker_per_dataset (committed s1) \<and>
               (\<forall>data' now'. name data' = name data \<longrightarrow>
                  (\<exists>s2. register_broker now' (open_session (committed s1) []) data' =
                          (s2, Inl (IntegrityError
                                     (Broker_id_already_exists (broker_details_id row)))) \<and>
                        committed s2 = committed s1))))
       \<and> (\<forall>b \<in> set (brokers d). broker_name b = name data \<longrightarrow>
            register_broker now (open_session d []) data =
              (open_session d [],
               Inl (IntegrityError (Broker_id_already_exists (broker_details_id b)))))
       \<and> (\<forall>fs. name data \<in> set (map broker_name (brokers d)) \<longrightarrow>
            committed (fst (register_broker now (open_session d fs) data)) = d \<and>
            (\<exists>e. snd (register_broker now (open_session d fs) data) = Inl e))"
proof (intro conjI impI allI ballI)
  assume fresh: "name data \<notin> set (map broker_name (brokers d))"
  define row where "row = \<lparr>broker_details_id = new_id (map broker_details_id (brokers d)),
                       broker_name = name data,
                       broker_ip = ip data,
                       broker_port = port data,
                       broker_creation_date = now\<rparr>"
  define d' where "d' = d\<lparr>brokers := brokers d @ [row]\<rparr>"
  have run: "register_broker now (open_session d []) data = (open_session d' [], Inr row)"
    using register_broker_fresh [OF fresh, of now] by (simp add: row_def d'_def Let_def)
  have uniq: "unique_broker_per_dataset d'"
    using assms fresh by (simp add: unique_broker_per_dataset_def d'_def row_def)
  have later: "\<exists>s2. register_broker now' (open_session (committed (open_session d' [])) []) data' =
                  (s2, Inl (IntegrityError (Broker_id_already_exists (broker_details_id row))))
                \<and> committed s2 = committed (open_session d' [])"
    if "name data' = name data" for data' now'
  proof -
    have "row \<in> set (brokers d')" by (simp add: d'_def)
    moreover have "broker_name row = name data'" using that by (simp add: row_def)
    ultimately have "register_broker now' (open_session d' []) data' =
        (open_session d' [],
         Inl (IntegrityError (Broker_id_already_exists (broker_details_id row))))"
      using register_broker_conflict [OF uniq] by blast
    then show ?thesis by (simp add: open_session_def)
  qed
  have id_new: "broker_details_id row \<notin> set (map broker_details_id (brokers d))"
    using new_id_fresh [of "map broker_details_id (brokers d)"] by (simp add: row_def)
  show "\<exists>s1 row.
          register_broker now (open_session d []) data = (s1, Inr row) \<and>
          brokers (committed s1) = brokers d @ [row] \<and>
          topics (committed s1) = topics d \<and>
          datasets (committed s1) = datasets d \<and>
          dataset_topics (committed s1) = dataset_topics d \<and>
          broker_name row = name data \<and>
          broker_details_id row \<notin> set (map broker_details_id (brokers d)) \<and>
          unique_broker_per_dataset (committed s1) \<and>
          (\<forall>data' now'. name data' = name data \<longrightarrow>
             (\<exists>s2. register_broker now' (open_session (committed s1) []) data' =
                     (s2, Inl (IntegrityError
                                (Broker_id_already_exists (broker_details_id row)))) \<and>
                   committed s2 = committed s1))"
  proof (intro exI [of _ "open_session d' []"] exI [of _ row] conjI)
    show "register_broker now (open_session d []) data = (open_session d' [], Inr row)"
      by (rule run)
    show "brokers (committed (open_session d' [])) = brokers d @ [row]"
      by (simp add: open_session_def d'_def)
    show "topics (committed (open_session d' [])) = topics d"
      by (simp add: open_session_def d'_def)
    show "datasets (committed (open_session d' [])) = datasets d"
      by (simp add: open_session_def d'_def)
    show "dataset_topics (committed (open_session d' [])) = dataset_topics d"
      by (simp add: open_session_def d'_def)
    show "broker_name row = name data" by (simp add: row_def)
    show "broker_details_id row \<notin> set (map broker_details_id (brokers d))" by (rule id_new)
    show "unique_broker_per_dataset (committed (open_session d' []))"
      using uniq by (simp add: open_session_def)
    show "\<forall>data' now'. name data' = name data \<longrightarrow>
            (\<exists>s2. register_broker now' (open_session (committed (open_session d' [])) []) data' =
                    (s2, Inl (IntegrityError
                               (Broker_id_already_exists (broker_details_id row)))) \<and>
                  committed s2 = committed (open_session d' []))"
      using later by blast
  qed
next
  fix b
  assume "b \<in> set (brokers d)" and "broker_name b = name data"
  then show "register_broker now (open_session d []) data =
              (open_session d [],
               Inl (IntegrityError (Broker_id_already_exists (broker_details_id b))))"
    using register_broker_conflict [OF assms] by blast
next
  fix fs
  assume ex: "name data \<in> set (map broker_name (brokers d))"
  show "committed (fst (register_broker now (open_session d fs) data)) = d"
    using register_broker_existing_name_any_script [OF ex] by blast
  show "\<exists>e. snd (register_broker now (open_session d fs) data) = Inl e"
    using register_broker_existing_name_any_script [OF ex] by blast
qed

theorem register_broker_succeeds_once_witness:
  "unique_broker_per_dataset empty_store \<and>
   (\<exists>s1 row.
      register_broker 5 (open_session empty_store [])
        \<lparr>name = ''broker-1'', ip = ''127.0.0.1'', port = 9092\<rparr> = (s1, Inr row) \<and>
      brokers (committed s1) = brokers empty_store @ [row] \<and>
      (\<exists>s2. register_broker 6 (open_session (committed s1) [])
               \<lparr>name = ''broker-1'', ip = ''10.0.0.2'', port = 9093\<rparr> =
               (s2, Inl (IntegrityError (Broker_id_already_exists (broker_details_id row)))) \<and>
             committed s2 = committed s1)) \<and>
   unique_broker_per_dataset example_store \<and>
   (\<exists>b \<in> set (brokers example_store).
      register_broker 9 (open_session example_store [])
        \<lparr>name = ''broker-2'', ip = ''10.0.0.9'', port = 1\<rparr> =
        (open_session example_store [],
         Inl (IntegrityError (Broker_id_already_exists (broker_details_id b)))) \<and>
      broker_details_id b = 2) \<and>
   committed (fst (register_broker 9 (open_session example_store [Some OperationalFault])
                     \<lparr>name = ''broker-2'', ip = ''10.0.0.9'', port = 1\<rparr>)) = example_store"
proof -
  let ?B1 = "\<lparr>name = ''broker-1'', ip = ''127.0.0.1'', port = 9092\<rparr>"
  let ?B1' = "\<lparr>name = ''broker-1'', ip = ''10.0.0.2'', port = 9093\<rparr>"
  let ?B2 = "\<lparr>name = ''broker-2'', ip = ''10.0.0.9'', port = 1\<rparr>"
  have u0: "unique_broker_per_dataset empty_store"
    by (simp add: unique_broker_per_dataset_def empty_store_def)
  have u1: "unique_broker_per_dataset example_store"
    by (simp add: unique_broker_per_dataset_def example_store_def)
  have fresh: "name ?B1 \<notin> set (map broker_name (brokers empty_store))"
    by (simp add: empty_store_def)
  have same: "name ?B1' = name ?B1" by simp
  have part1: "\<exists>s1 row.
      register_broker 5 (open_session empty_store []) ?B1 = (s1, Inr row) \<and>
      brokers (committed s1) = brokers empty_store @ [row] \<and>
      (\<exists>s2. register_broker 6 (open_session (committed s1) []) ?B1' =
               (s2, Inl (IntegrityError (Broker_id_already_exists (broker_details_id row)))) \<and>
             committed s2 = committed s1)"
    using register_broker_succeeds_once [OF u0, of ?B1 5] fresh same by blast
  let ?b = "\<lparr>broker_details_id = 2, broker_name = ''broker-2'', broker_ip = ''10.0.0.2'',
             broker_port = 9093, broker_creation_date = 6\<rparr>"
  have mem: "?b \<in> set (brokers example_store)" by (simp add: example_store_def)
  have nm: "broker_name ?b = name ?B2" by simp
  have "register_broker 9 (open_session example_store []) ?B2 =
          (open_session example_store [],
           Inl (IntegrityError (Broker_id_already_exists (broker_details_id ?b))))"
    using register_broker_succeeds_once [OF u1, of ?B2 9] mem nm by blast
  then have part2: "\<exists>b \<in> set (brokers example_store).
      register_broker 9 (open_session example_store []) ?B2 =
        (open_session example_store [],
         Inl (IntegrityError (Broker_id_already_exists (broker_details_id b)))) \<and>
      broker_details_id b = 2"
    using mem by (intro bexI [of _ ?b]) simp_all
  have ex: "name ?B2 \<in> set (map broker_name (brokers example_store))"
    by (simp add: example_store_def)
  have part3: "committed (fst (register_broker 9
                  (open_session example_store [Some OperationalFault]) ?B2)) = example_store"
    using register_broker_succeeds_once [OF u1, of ?B2 9] ex by blast
  show ?thesis using u0 u1 part1 part2 part3 by blast
qed

subsection \<open>Topic registration\<close>

lemma register_topic_same_name_other_broker:
  "register_topic 7
     (open_session (example_store\<lparr>topics := take 1 (topics example_store),
                                   dataset_topics := []\<rparr>) [])
     2 \<lparr>topic_base_name = ''telemetry'', schema_definition = ''{}''\<rparr> =
   (open_session (example_store\<lparr>dataset_topics := []\<rparr>) [],
    Inr \<lparr>topic_details_id = 2, topic_name = ''telemetry'', topic_schema = ''{}'',
         broker_id = 2, topic_creation_date = 7\<rparr>)"
  by (simp add: register_topic_def register_topic_try_def insert_topic_def
      open_session_def next_fault_def commit_def new_id_def example_store_def Let_def)

lemma register_topic_conflict_unique_name:
  assumes fb: "filter (\<lambda>b. broker_details_id b = bid) (brokers d) = [b]"
    and ft: "filter (\<lambda>x. topic_name x = topic_base_name data) (topics d) = [t]"
    and tb: "broker_id t = bid"
  shows "register_topic now (open_session d []) bid data =
           (open_session d [],
            Inl (IntegrityError (Topic_id_already_exists (topic_details_id t))))"
proof -
  have "t \<in> set (filter (\<lambda>x. topic_name x = topic_base_name data) (topics d))"
    using ft by simp
  then have "t \<in> set (topics d)" "topic_name t = topic_base_name data" by auto
  then have m: "(topic_base_name data, bid)
                  \<in> (\<lambda>t. (topic_name t, broker_id t)) ` set (topics d)"
    using tb by force
  show ?thesis
    using fb ft m
    by (simp add: register_topic_def register_topic_try_def insert_topic_def
        open_session_def next_fault_def rollback_def Let_def)
qed

text \<open>
  C4. The store holds the topic \<open>telemetry\<close> under broker 1 (id 1) and under broker 2
  (id 2), which \<^verbatim>\<open>unique_topic_per_broker\<close> allows. Registering \<open>telemetry\<close> under
  broker 2 once more violates the constraint; the handler then looks the existing topic
  up by its name alone, finds two rows, and \<^verbatim>\<open>one()\<close> raises MultipleResultsFound
  out of the handler. No IntegrityError with the id 2 is raised. No row is added.
\<close>

theorem register_topic_same_name_two_brokers:
  "unique_topic_per_broker example_store \<and> primary_keys example_store \<and>
   register_topic 10 (open_session example_store []) 2
       \<lparr>topic_base_name = ''telemetry'', schema_definition = ''{}''\<rparr> =
     (open_session example_store [], Inl MultipleResultsFound)"
  by (simp add: register_topic_def register_topic_try_def insert_topic_def
      open_session_def next_fault_def rollback_def
      example_store_def unique_topic_per_broker_def primary_keys_def)

subsection \<open>Registration of a broker-sourced dataset\<close>

lemma register_try_Inl:
  assumes "register_dataset_message_details_try now s data = (s', Inl e)"
  shows "committed s' = committed s"
  using assms
  unfolding register_dataset_message_details_try_def
  by (auto split: sum.splits option.splits prod.splits
      dest: insert_dataset_committed)
     (metis insert_dataset_committed insert_dataset_topic_committed commit_Inl)+

lemma register_try_Inr:
  assumes "register_dataset_message_details_try now s data = (s', Inr resp)"
  shows "dataset_and_link_added (working s) data (committed s') resp"
proof -
  from assms obtain s1 dataset_info s2 link where
    i1: "insert_dataset s
             \<lparr>dataset_info_id = 0,
              train_and_inference_type = dataset_type data,
              data_source_type = BROKER_DATA_SOURCE_TYPE,
              dataset_name = request_name data,
              description = request_description data,
              user_id = USER_ID,
              register_date_time = now,
              last_modified_time = now,
              last_modified_user_id = USER_ID\<rparr> = (s1, Inr dataset_info)"
    and i2: "insert_dataset_topic s1
             \<lparr>dataset_topic_details_id = 0,
              topic_id = request_topic_id data,
              dataset_id = dataset_info_id dataset_info,
              link_creation_date = now\<rparr> = (s2, Inr link)"
    and c: "commit s2 = (s', Inr ())"
    and r: "details_id (response_dataset resp) = dataset_info_id dataset_info"
    unfolding register_dataset_message_details_try_def
    by (auto split: sum.splits option.splits prod.splits
        simp: dataset_message_response_def)
  note a = insert_dataset_Inr [OF i1]
  note b = insert_dataset_topic_Inr [OF i2]
  note k = commit_Inr [OF c]
  have w: "committed s' = (working s)\<lparr>datasets := datasets (working s) @ [dataset_info],
             dataset_topics := dataset_topics (working s) @ [link]\<rparr>"
    using a b k by simp
  have f1: "dataset_info_id dataset_info \<notin> set (map dataset_info_id (datasets (working s)))"
    using a new_id_fresh [of "map dataset_info_id (datasets (working s))"] by simp
  have f2: "dataset_topic_details_id link
              \<notin> set (map dataset_topic_details_id (dataset_topics (working s)))"
    using a b new_id_fresh [of "map dataset_topic_details_id (dataset_topics (working s))"]
    by simp
  show ?thesis
    unfolding dataset_and_link_added_def
    apply (rule exI [of _ dataset_info])
    apply (rule exI [of _ link])
    using w f1 f2 a b r by simp
qed

lemma register_dataset_message_details_success:
  assumes fb: "filter (\<lambda>b. broker_details_id b = request_broker_id data) (brokers d) = [b]"
    and ft: "filter (\<lambda>t. topic_details_id t = request_topic_id data) (topics d) = [t]"
    and ty: "dataset_type data \<in> {0, 1, 2}"
  shows "register_dataset_message_details now (open_session d []) data =
           (let row = \<lparr>dataset_info_id = new_id (map dataset_info_id (datasets d)),
                       train_and_inference_type = dataset_type data,
                       data_source_type = BROKER_DATA_SOURCE_TYPE,
                       dataset_name = request_name data,
                       description = request_description data,
                       user_id = USER_ID,
                       register_date_time = now,
                       last_modified_time = now,
                       last_modified_user_id = USER_ID\<rparr>;
                link = \<lparr>dataset_topic_details_id =
                          new_id (map dataset_topic_details_id (dataset_topics d)),
                        topic_id = request_topic_id data,
                        dataset_id = dataset_info_id row,
                        link_creation_date = now\<rparr>;
                d' = d\<lparr>datasets := datasets d @ [row],
                       dataset_topics := dataset_topics d @ [link]\<rparr>
            in (open_session d' [],
                Inr (dataset_message_response (dataset_info_attributes row) b t)))"
proof -
  have "t \<in> set (filter (\<lambda>t. topic_details_id t = request_topic_id data) (topics d))"
    using ft by simp
  then have tm: "request_topic_id data \<in> topic_details_id ` set (topics d)"
    by force
  show ?thesis
    using fb ft ty tm
    by (simp add: register_dataset_message_details_def register_dataset_message_details_try_def
        insert_dataset_def insert_dataset_topic_def commit_def next_fault_def open_session_def
        BROKER_DATA_SOURCE_TYPE_def dataset_info_attributes_def Let_def)
qed


text \<open>
  C1. Whatever the store answers to the statements of the call, a call of
  \<^verbatim>\<open>register_dataset_message_details\<close> either returns and has committed exactly one
  new dataset row of the broker source type together with exactly one new link row that
  references it, or raises and has committed nothing; the committed store is written by
  the one \<^verbatim>\<open>commit()\<close> only. When the broker id and the topic id resolve, the primary
  keys are unique, the dataset type is one of 0, 1, 2 and the store answers every
  statement, the call returns.
\<close>

theorem register_dataset_message_details_atomic:
  "(case register_dataset_message_details now (open_session d fs) data of
      (s', Inr resp) \<Rightarrow> dataset_and_link_added d data (committed s') resp
    | (s', Inl e) \<Rightarrow> committed s' = d)
   \<and> (primary_keys d \<and>
        request_broker_id data \<in> set (map broker_details_id (brokers d)) \<and>
        request_topic_id data \<in> set (map topic_details_id (topics d)) \<and>
        dataset_type data \<in> {0, 1, 2} \<longrightarrow>
        (\<exists>s' resp. register_dataset_message_details now (open_session d []) data
                      = (s', Inr resp)))"
proof (intro conjI impI)
  obtain s1 r where
    t: "register_dataset_message_details_try now (open_session d fs) data = (s1, r)"
    by (cases "register_dataset_message_details_try now (open_session d fs) data")
  show "case register_dataset_message_details now (open_session d fs) data of
          (s', Inr resp) \<Rightarrow> dataset_and_link_added d data (committed s') resp
        | (s', Inl e) \<Rightarrow> committed s' = d"
  proof (cases r)
    case (Inl e)
    have "committed s1 = d"
      using register_try_Inl t Inl by (fastforce simp: open_session_def)
    then show ?thesis
      using t Inl by (simp add: register_dataset_message_details_def rollback_def)
  next
    case (Inr resp)
    have "dataset_and_link_added d data (committed s1) resp"
      using register_try_Inr [of now "open_session d fs" data s1 resp] t Inr
      by (simp add: open_session_def)
    then show ?thesis
      using t Inr by (simp add: register_dataset_message_details_def)
  qed
next
  assume a: "primary_keys d \<and>
        request_broker_id data \<in> set (map broker_details_id (brokers d)) \<and>
        request_topic_id data \<in> set (map topic_details_id (topics d)) \<and>
        dataset_type data \<in> {0, 1, 2}"
  then obtain b t where b: "b \<in> set (brokers d)" "broker_details_id b = request_broker_id data"
    and t: "t \<in> set (topics d)" "topic_details_id t = request_topic_id data"
    by auto
  have db: "distinct (map broker_details_id (brokers d))"
    and dt: "distinct (map topic_details_id (topics d))"
    using a unfolding primary_keys_def by auto
  have fb: "filter (\<lambda>x. broker_details_id x = request_broker_id data) (brokers d) = [b]"
    using filter_key_unique' [OF db b] .
  have ft: "filter (\<lambda>x. topic_details_id x = request_topic_id data) (topics d) = [t]"
    using filter_key_unique' [OF dt t] .
  have ty: "dataset_type data \<in> {0, 1, 2}" using a by simp
  show "\<exists>s' resp. register_dataset_message_details now (open_session d []) data
                     = (s', Inr resp)"
    using register_dataset_message_details_success [OF fb ft ty, of now]
    by (simp add: Let_def)
qed

theorem register_dataset_message_details_atomic_witness:
  "(\<exists>s' resp.
      register_dataset_message_details 8 (open_session example_store [])
        \<lparr>dataset_type = 0, request_name = ''meter-ds'', request_description = ''desc'',
         request_broker_id = 1, request_topic_id = 1\<rparr> = (s', Inr resp) \<and>
      dataset_and_link_added example_store
        \<lparr>dataset_type = 0, request_name = ''meter-ds'', request_description = ''desc'',
         request_broker_id = 1, request_topic_id = 1\<rparr> (committed s') resp) \<and>
   (\<exists>s'.
      register_dataset_message_details 8
        (open_session example_store [None, Some OperationalFault])
        \<lparr>dataset_type = 0, request_name = ''meter-ds'', request_description = ''desc'',
         request_broker_id = 1, request_topic_id = 1\<rparr> = (s', Inl OperationalError) \<and>
      committed s' = example_store)"
proof -
  let ?D = "\<lparr>dataset_type = 0, request_name = ''meter-ds'', request_description = ''desc'',
              request_broker_id = 1, request_topic_id = 1\<rparr>"
  have h: "primary_keys example_store \<and>
        request_broker_id ?D \<in> set (map broker_details_id (brokers example_store)) \<and>
        request_topic_id ?D \<in> set (map topic_details_id (topics example_store)) \<and>
        dataset_type ?D \<in> {0, 1, 2}"
    by (simp add: primary_keys_def example_store_def)
  from register_dataset_message_details_atomic
         [where now = 8 and d = example_store and fs = "[]" and data = ?D] h
  obtain s' resp where
    run: "register_dataset_message_details 8 (open_session example_store []) ?D = (s', Inr resp)"
    by blast
  have "dataset_and_link_added example_store ?D (committed s') resp"
    using register_dataset_message_details_atomic
         [where now = 8 and d = example_store and fs = "[]" and data = ?D] run by simp
  then have part1: "\<exists>s' resp.
      register_dataset_message_details 8 (open_session example_store []) ?D = (s', Inr resp) \<and>
      dataset_and_link_added example_store ?D (committed s') resp"
    using run by blast
  have "snd (register_dataset_message_details 8
               (open_session example_store [None, Some OperationalFault]) ?D)
          = Inl OperationalError"
    by (simp add: register_dataset_message_details_def register_dataset_message_details_try_def
        insert_dataset_def insert_dataset_topic_def next_fault_def open_session_def
        example_store_def BROKER_DATA_SOURCE_TYPE_def Let_def)
  then obtain s2 where
    run2: "register_dataset_message_details 8
             (open_session example_store [None, Some OperationalFault]) ?D
           = (s2, Inl OperationalError)"
    by (metis prod.collapse)
  have "committed s2 = example_store"
    using register_dataset_message_details_atomic
            [where now = 8 and d = example_store and fs = "[None, Some OperationalFault]"
               and data = ?D] run2
    by simp
  then show ?thesis using part1 run2 by blast
qed

subsection \<open>The composite view at registration and on the read path\<close>

lemma concat_map_all_Nil: "(\<And>x. x \<in> set xs \<Longrightarrow> f x = []) \<Longrightarrow> concat (map f xs) = []"
  by (induction xs) auto

lemma concat_map_if_filter:
  "concat (map (\<lambda>x. if P x then f x else []) xs) = concat (map f (filter P xs))"
  by (induction xs) auto

lemma concat_map_key_unique:
  assumes "distinct (map f xs)" and "x \<in> set xs" and "f x = k"
  shows "concat (map (\<lambda>y. if k = f y then g y else []) xs) = g x"
proof -
  have "filter (\<lambda>y. k = f y) xs = filter (\<lambda>y. f y = k) xs"
    by (rule filter_cong) auto
  then have "filter (\<lambda>y. k = f y) xs = [x]"
    using filter_key_unique' [OF assms] by simp
  then show ?thesis by (simp add: concat_map_if_filter)
qed

lemma dataset_message_join_new:
  assumes pk: "primary_keys d" and fk: "foreign_keys d"
    and t: "t \<in> set (topics d)" and b: "b \<in> set (brokers d)"
    and tb: "broker_id t = broker_details_id b"
    and fresh: "dataset_info_id row \<notin> set (map dataset_info_id (datasets d))"
    and l1: "dataset_id link = dataset_info_id row" and l2: "topic_id link = topic_details_id t"
  shows "dataset_message_join
           (d\<lparr>datasets := datasets d @ [row], dataset_topics := dataset_topics d @ [link]\<rparr>)
           (dataset_info_id row) = [(row, b, t)]"
proof -
  let ?did = "dataset_info_id row"
  have old_ds: "dataset_info_id x \<noteq> ?did" if "x \<in> set (datasets d)" for x
    using that fresh by (metis image_eqI set_map)
  have old_ls: "dataset_id l \<noteq> ?did" if "l \<in> set (dataset_topics d)" for l
  proof -
    have "dataset_id l \<in> set (map dataset_info_id (datasets d))"
      using fk that unfolding foreign_keys_def by auto
    then show ?thesis using fresh by metis
  qed
  have dt: "distinct (map topic_details_id (topics d))"
    and db: "distinct (map broker_details_id (brokers d))"
    using pk unfolding primary_keys_def by auto
  have brokers_of_t:
    "concat (map (\<lambda>ba. if broker_id t = broker_details_id ba then [(row, ba, t)] else [])
               (brokers d)) = [(row, b, t)]"
    using concat_map_key_unique [OF db b, of "broker_id t" "\<lambda>ba. [(row, ba, t)]"] tb by simp
  have topics_of_link:
    "concat (map (\<lambda>ta. if topic_id link = topic_details_id ta
                         then concat (map (\<lambda>ba. if broker_id ta = broker_details_id ba
                                                 then [(row, ba, ta)] else []) (brokers d))
                         else []) (topics d)) = [(row, b, t)]"
    using concat_map_key_unique [OF dt t, of "topic_id link"
        "\<lambda>ta. concat (map (\<lambda>ba. if broker_id ta = broker_details_id ba
                                  then [(row, ba, ta)] else []) (brokers d))"]
      l2 brokers_of_t by simp
  have old_part: "concat (map (\<lambda>x. if dataset_info_id x = ?did then F x else [])
                                (datasets d)) = []" for F :: "DatasetInfo \<Rightarrow> 'z list"
    by (rule concat_map_all_Nil) (simp add: old_ds)
  have old_links: "concat (map (\<lambda>l. if ?did = dataset_id l then G l else [])
                                 (dataset_topics d)) = []"
    for G :: "DatasetTopicDetails \<Rightarrow> 'z list"
  proof (rule concat_map_all_Nil)
    fix l
    assume "l \<in> set (dataset_topics d)"
    then have "?did \<noteq> dataset_id l" using old_ls by metis
    then show "(if ?did = dataset_id l then G l else []) = []"
      by simp
  qed
  show ?thesis
    unfolding dataset_message_join_def
    by (simp add: old_part old_links topics_of_link l1 cong: if_cong)
qed


text \<open>
  C10. Take a store with unique primary keys and intact foreign keys, a request whose
  broker id and topic id both resolve, and let the topic belong to another broker than
  the one the request names. Then the registration succeeds; its composite view pairs
  the topic with the broker of the request; the link row it persists holds the dataset id
  and the topic id only; and \<^verbatim>\<open>fetch_dataset_message_details\<close> on the new dataset
  returns the same dataset and topic with the broker that owns the topic, whose id
  differs from the one returned at registration.
\<close>

theorem registration_and_fetch_disagree_on_broker:
  assumes pk: "primary_keys d" and fk: "foreign_keys d"
    and b: "b \<in> set (brokers d)" "broker_details_id b = request_broker_id data"
    and t: "t \<in> set (topics d)" "topic_details_id t = request_topic_id data"
    and other: "broker_id t \<noteq> request_broker_id data"
    and ty: "dataset_type data \<in> {0, 1, 2}"
  shows "\<exists>s1 resp link s2 resp'.
           register_dataset_message_details now (open_session d []) data = (s1, Inr resp) \<and>
           response_broker_details resp = b \<and>
           response_topic_details resp = t \<and>
           dataset_topics (committed s1) = dataset_topics d @ [link] \<and>
           dataset_id link = details_id (response_dataset resp) \<and>
           topic_id link = request_topic_id data \<and>
           fetch_dataset_message_details (open_session (committed s1) [])
             (details_id (response_dataset resp)) = (s2, Inr resp') \<and>
           response_dataset resp' = response_dataset resp \<and>
           response_topic_details resp' = t \<and>
           broker_details_id (response_broker_details resp') = broker_id t \<and>
           broker_details_id (response_broker_details resp')
             \<noteq> broker_details_id (response_broker_details resp)"
proof -
  have db: "distinct (map broker_details_id (brokers d))"
    and dt: "distinct (map topic_details_id (topics d))"
    using pk unfolding primary_keys_def by auto
  have fb: "filter (\<lambda>x. broker_details_id x = request_broker_id data) (brokers d) = [b]"
    using filter_key_unique' [OF db b] .
  have ft: "filter (\<lambda>x. topic_details_id x = request_topic_id data) (topics d) = [t]"
    using filter_key_unique' [OF dt t] .
  have "broker_id t \<in> set (map broker_details_id (brokers d))"
    using fk t(1) unfolding foreign_keys_def by auto
  then obtain b' where b': "b' \<in> set (brokers d)" "broker_id t = broker_details_id b'"
    by auto
  define row where "row = \<lparr>dataset_info_id = new_id (map dataset_info_id (datasets d)),
                       train_and_inference_type = dataset_type data,
                       data_source_type = BROKER_DATA_SOURCE_TYPE,
                       dataset_name = request_name data,
                       description = request_description data,
                       user_id = USER_ID,
                       register_date_time = now,
                       last_modified_time = now,
                       last_modified_user_id = USER_ID\<rparr>"
  define link where "link = \<lparr>dataset_topic_details_id =
                          new_id (map dataset_topic_details_id (dataset_topics d)),
                        topic_id = request_topic_id data,
                        dataset_id = dataset_info_id row,
                        link_creation_date = now\<rparr>"
  define d' where "d' = d\<lparr>datasets := datasets d @ [row],
                         dataset_topics := dataset_topics d @ [link]\<rparr>"
  define resp where "resp = dataset_message_response (dataset_info_attributes row) b t"
  define resp' where "resp' = dataset_message_response (dataset_info_attributes row) b' t"
  have reg: "register_dataset_message_details now (open_session d []) data =
               (open_session d' [], Inr resp)"
    using register_dataset_message_details_success [OF fb ft ty, of now]
    by (simp add: row_def link_def d'_def resp_def Let_def)
  have fresh: "dataset_info_id row \<notin> set (map dataset_info_id (datasets d))"
    using new_id_fresh [of "map dataset_info_id (datasets d)"] by (simp add: row_def)
  have l1: "dataset_id link = dataset_info_id row" by (simp add: link_def)
  have l2: "topic_id link = topic_details_id t" using t(2) by (simp add: link_def)
  have join: "dataset_message_join d' (dataset_info_id row) = [(row, b', t)]"
    unfolding d'_def
    by (rule dataset_message_join_new [OF pk fk t(1) b'(1) b'(2) fresh l1 l2])
  have rid: "details_id (response_dataset resp) = dataset_info_id row"
    by (simp add: resp_def dataset_message_response_def dataset_info_attributes_def)
  have fetch: "fetch_dataset_message_details (open_session (committed (open_session d' [])) [])
                 (details_id (response_dataset resp)) =
               (open_session d' [], Inr resp')"
    using join by (simp add: fetch_dataset_message_details_def open_session_def rid resp'_def)
  have rb: "response_broker_details resp = b" "response_topic_details resp = t"
    by (simp_all add: resp_def dataset_message_response_def)
  have rb': "response_broker_details resp' = b'" "response_topic_details resp' = t"
    "response_dataset resp' = response_dataset resp"
    by (simp_all add: resp_def resp'_def dataset_message_response_def)
  have links: "dataset_topics (committed (open_session d' [])) = dataset_topics d @ [link]"
    by (simp add: open_session_def d'_def)
  have lt: "topic_id link = request_topic_id data" by (simp add: link_def)
  have neq: "broker_details_id b' \<noteq> broker_details_id b"
    using other b(2) b'(2) by simp
  show ?thesis
    apply (rule exI [of _ "open_session d' []"])
    apply (rule exI [of _ resp])
    apply (rule exI [of _ link])
    apply (rule exI [of _ "open_session d' []"])
    apply (rule exI [of _ resp'])
    using reg fetch rb rb' links l1 rid lt neq b'(2) by simp
qed

theorem registration_and_fetch_disagree_on_broker_witness:
  "primary_keys example_store \<and> foreign_keys example_store \<and>
   (\<exists>s1 resp s2 resp'.
      register_dataset_message_details 8 (open_session example_store [])
        \<lparr>dataset_type = 0, request_name = ''mixed-ds'', request_description = ''desc'',
         request_broker_id = 1, request_topic_id = 2\<rparr> = (s1, Inr resp) \<and>
      broker_details_id (response_broker_details resp) = 1 \<and>
      broker_id (response_topic_details resp) = 2 \<and>
      fetch_dataset_message_details (open_session (committed s1) [])
        (details_id (response_dataset resp)) = (s2, Inr resp') \<and>
      response_dataset resp' = response_dataset resp \<and>
      broker_details_id (response_broker_details resp') = 2)"
proof -
  let ?D = "\<lparr>dataset_type = 0, request_name = ''mixed-ds'', request_description = ''desc'',
              request_broker_id = 1, request_topic_id = 2\<rparr>"
  let ?b = "\<lparr>broker_details_id = 1, broker_name = ''broker-1'', broker_ip = ''127.0.0.1'',
             broker_port = 9092, broker_creation_date = 5\<rparr>"
  let ?t = "\<lparr>topic_details_id = 2, topic_name = ''telemetry'', topic_schema = ''{}'',
             broker_id = 2, topic_creation_date = 7\<rparr>"
  have pk: "primary_keys example_store" by (simp add: primary_keys_def example_store_def)
  have fk: "foreign_keys example_store" by (simp add: foreign_keys_def example_store_def)
  have b: "?b \<in> set (brokers example_store)" "broker_details_id ?b = request_broker_id ?D"
    by (simp_all add: example_store_def)
  have t: "?t \<in> set (topics example_store)" "topic_details_id ?t = request_topic_id ?D"
    by (simp_all add: example_store_def)
  have other: "broker_id ?t \<noteq> request_broker_id ?D" by simp
  have ty: "dataset_type ?D \<in> {0, 1, 2}" by simp
  from registration_and_fetch_disagree_on_broker [OF pk fk b t other ty, of 8]
  obtain s1 resp s2 resp' where
    "register_dataset_message_details 8 (open_session example_store []) ?D = (s1, Inr resp)"
    "response_broker_details resp = ?b" "response_topic_details resp = ?t"
    "fetch_dataset_message_details (open_session (committed s1) [])
       (details_id (response_dataset resp)) = (s2, Inr resp')"
    "response_dataset resp' = response_dataset resp"
    "broker_details_id (response_broker_details resp') = broker_id ?t"
    by blast
  then have "\<exists>s1 resp s2 resp'.
      register_dataset_message_details 8 (open_session example_store []) ?D = (s1, Inr resp) \<and>
      broker_details_id (response_broker_details resp) = 1 \<and>
      broker_id (response_topic_details resp) = 2 \<and>
      fetch_dataset_message_details (open_session (committed s1) [])
        (details_id (response_dataset resp)) = (s2, Inr resp') \<and>
      response_dataset resp' = response_dataset resp \<and>
      broker_details_id (response_broker_details resp') = 2"
    by (intro exI [of _ s1] exI [of _ resp] exI [of _ s2] exI [of _ resp']) simp
  then show ?thesis using pk fk by blast
qed

subsection \<open>Deregistration of a broker-sourced dataset\<close>

lemma deregister_try_Inl:
  assumes "dataset_message_deregister_try s did = (s', Inl e)"
  shows "committed s' = committed s"
  using assms
  unfolding dataset_message_deregister_try_def
  by (auto split: sum.splits option.splits prod.splits)
     (metis delete_dataset_topic_committed delete_dataset_committed commit_Inl)+


lemma deregister_try_Inr:
  assumes run: "dataset_message_deregister_try s did = (s', Inr u)"
    and pk: "distinct (map dataset_topic_details_id (dataset_topics (working s)))"
  shows "(\<exists>row \<in> set (datasets (working s)).
            dataset_info_id row = did \<and> data_source_type row = BROKER_DATA_SOURCE_TYPE) \<and>
         committed s' = (working s)
            \<lparr>datasets := filter (\<lambda>d. dataset_info_id d \<noteq> did) (datasets (working s)),
             dataset_topics := filter (\<lambda>l. dataset_id l \<noteq> did)
                                      (dataset_topics (working s))\<rparr>"
proof -
  from run obtain row lk s1 s2 where
    o: "one (filter (\<lambda>d. dataset_info_id d = did
                             \<and> data_source_type d = BROKER_DATA_SOURCE_TYPE)
                  (datasets (working s))) = Inr row"
    and ol: "one_or_none (filter (\<lambda>l. dataset_id l = dataset_info_id row)
                          (dataset_topics (working s))) = Inr lk"
    and dl: "(case lk of None \<Rightarrow> (s, Inr ()) | Some l \<Rightarrow> delete_dataset_topic s l) = (s1, Inr ())"
    and dd: "delete_dataset s1 row = (s2, Inr ())"
    and c: "commit s2 = (s', Inr ())"
    unfolding dataset_message_deregister_try_def
    by (auto split: sum.splits option.splits prod.splits)
  have "filter (\<lambda>d. dataset_info_id d = did \<and> data_source_type d = BROKER_DATA_SOURCE_TYPE)
          (datasets (working s)) = [row]"
    using one_Inr_mem [OF o] .
  then have "row \<in> set (filter (\<lambda>d. dataset_info_id d = did
                 \<and> data_source_type d = BROKER_DATA_SOURCE_TYPE) (datasets (working s)))"
    by simp
  then have row: "row \<in> set (datasets (working s))" "dataset_info_id row = did"
    "data_source_type row = BROKER_DATA_SOURCE_TYPE"
    by auto
  have links1: "filter (\<lambda>l. dataset_id l \<noteq> did) (dataset_topics (working s1))
                 = filter (\<lambda>l. dataset_id l \<noteq> did) (dataset_topics (working s))"
    and rest1: "datasets (working s1) = datasets (working s)"
               "brokers (working s1) = brokers (working s)"
               "topics (working s1) = topics (working s)"
  proof -
    show "filter (\<lambda>l. dataset_id l \<noteq> did) (dataset_topics (working s1))
                 = filter (\<lambda>l. dataset_id l \<noteq> did) (dataset_topics (working s))"
    proof (cases lk)
      case None
      then show ?thesis using dl by simp
    next
      case (Some l)
      have "filter (\<lambda>x. dataset_id x = dataset_info_id row) (dataset_topics (working s)) = [l]"
        using one_or_none_Some ol Some by metis
      then have "l \<in> set (filter (\<lambda>x. dataset_id x = dataset_info_id row)
                              (dataset_topics (working s)))"
        by simp
      then have l: "l \<in> set (dataset_topics (working s))" "dataset_id l = did"
        using row(2) by auto
      have w: "working s1 = (working s)\<lparr>dataset_topics :=
                 filter (\<lambda>x. dataset_topic_details_id x \<noteq> dataset_topic_details_id l)
                        (dataset_topics (working s))\<rparr>"
        using delete_dataset_topic_Inr dl Some by simp
      have "\<And>x. x \<in> set (dataset_topics (working s)) \<Longrightarrow> dataset_id x \<noteq> did \<Longrightarrow>
               dataset_topic_details_id x \<noteq> dataset_topic_details_id l"
        using distinct_map_eq [OF pk _ l(1)] l(2) by blast
      then show ?thesis
        unfolding w by (auto simp: filter_filter intro!: filter_cong)
    qed
    show "datasets (working s1) = datasets (working s)"
         "brokers (working s1) = brokers (working s)"
         "topics (working s1) = topics (working s)"
      using dl delete_dataset_topic_Inr by (cases lk; fastforce)+
  qed
  have w2: "working s2 = (working s1)
        \<lparr>datasets := filter (\<lambda>d. dataset_info_id d \<noteq> did) (datasets (working s1)),
         dataset_topics := filter (\<lambda>l. dataset_id l \<noteq> did)
                                  (dataset_topics (working s1))\<rparr>"
    using delete_dataset_Inr [OF dd] row(2) by simp
  have k: "committed s' = working s2" using commit_Inr [OF c] by simp
  have "committed s' = (working s)
            \<lparr>datasets := filter (\<lambda>d. dataset_info_id d \<noteq> did) (datasets (working s)),
             dataset_topics := filter (\<lambda>l. dataset_id l \<noteq> did)
                                      (dataset_topics (working s))\<rparr>"
    unfolding k w2 using links1 rest1 by (simp add: filter_filter)
  then show ?thesis using row by blast
qed


lemma dataset_message_deregister_absent:
  assumes "filter (\<lambda>d. dataset_info_id d = did \<and> data_source_type d = BROKER_DATA_SOURCE_TYPE)
             (datasets d) = []"
  shows "dataset_message_deregister (open_session d fs) did =
           (open_session d fs, Inl (NoResultFound (Dataset_not_found_for_id did)))"
  using assms
  by (simp add: dataset_message_deregister_def dataset_message_deregister_try_def
      open_session_def)

lemma dataset_message_deregister_success:
  assumes "filter (\<lambda>d. dataset_info_id d = did \<and> data_source_type d = BROKER_DATA_SOURCE_TYPE)
             (datasets d) = [row]"
    and "length (filter (\<lambda>l. dataset_id l = did) (dataset_topics d)) \<le> 1"
  shows "\<exists>s'. dataset_message_deregister (open_session d []) did = (s', Inr ())"
proof -
  have "row \<in> set (filter (\<lambda>d. dataset_info_id d = did
           \<and> data_source_type d = BROKER_DATA_SOURCE_TYPE) (datasets d))"
    using assms(1) by simp
  then have rid: "dataset_info_id row = did" by simp
  show ?thesis
  proof (cases "filter (\<lambda>l. dataset_id l = did) (dataset_topics d)")
    case Nil
    then show ?thesis
      using assms(1) rid
      by (simp add: dataset_message_deregister_def dataset_message_deregister_try_def
          open_session_def delete_dataset_def commit_def next_fault_def)
  next
    case (Cons l ls)
    then have "ls = []" using assms(2) by simp
    then show ?thesis
      using assms(1) rid Cons
      by (simp add: dataset_message_deregister_def dataset_message_deregister_try_def
          open_session_def delete_dataset_def delete_dataset_topic_def commit_def
          next_fault_def)
  qed
qed

text \<open>
  C7. On a store with unique primary keys and whatever the store answers to the
  statements: when \<^verbatim>\<open>dataset_message_deregister\<close> returns, a dataset row with the id
  and the broker source type existed, and the committed store is the old one without
  the dataset rows of that id and without the link rows of that dataset, brokers and
  topics untouched; when it raises, the committed store is unchanged. When no dataset
  row has both the id and the broker source type (absent, or file- or table-sourced),
  the call raises NoResultFound and leaves the session as it was. When such a row
  exists, the dataset has at most one link and the store answers every statement, the
  call returns.
\<close>

theorem dataset_message_deregister_atomic:
  assumes pk: "primary_keys d"
  shows "(case dataset_message_deregister (open_session d fs) did of
            (s', Inr u) \<Rightarrow>
              (\<exists>row \<in> set (datasets d).
                 dataset_info_id row = did \<and> data_source_type row = BROKER_DATA_SOURCE_TYPE) \<and>
              datasets (committed s') = filter (\<lambda>x. dataset_info_id x \<noteq> did) (datasets d) \<and>
              dataset_topics (committed s')
                = filter (\<lambda>l. dataset_id l \<noteq> did) (dataset_topics d) \<and>
              brokers (committed s') = brokers d \<and>
              topics (committed s') = topics d
          | (s', Inl e) \<Rightarrow> committed s' = d)
       \<and> ((\<forall>row \<in> set (datasets d).
              dataset_info_id row = did \<longrightarrow> data_source_type row \<noteq> BROKER_DATA_SOURCE_TYPE)
            \<longrightarrow> dataset_message_deregister (open_session d fs) did =
                  (open_session d fs, Inl (NoResultFound (Dataset_not_found_for_id did))))
       \<and> ((\<exists>row \<in> set (datasets d).
              dataset_info_id row = did \<and> data_source_type row = BROKER_DATA_SOURCE_TYPE) \<and>
            length (filter (\<lambda>l. dataset_id l = did) (dataset_topics d)) \<le> 1
            \<longrightarrow> (\<exists>s'. dataset_message_deregister (open_session d []) did = (s', Inr ())))"
proof (intro conjI impI)
  obtain s1 r where t: "dataset_message_deregister_try (open_session d fs) did = (s1, r)"
    by (cases "dataset_message_deregister_try (open_session d fs) did")
  have pkl: "distinct (map dataset_topic_details_id
                         (dataset_topics (working (open_session d fs))))"
    using pk by (simp add: primary_keys_def open_session_def)
  show "case dataset_message_deregister (open_session d fs) did of
            (s', Inr u) \<Rightarrow>
              (\<exists>row \<in> set (datasets d).
                 dataset_info_id row = did \<and> data_source_type row = BROKER_DATA_SOURCE_TYPE) \<and>
              datasets (committed s') = filter (\<lambda>x. dataset_info_id x \<noteq> did) (datasets d) \<and>
              dataset_topics (committed s')
                = filter (\<lambda>l. dataset_id l \<noteq> did) (dataset_topics d) \<and>
              brokers (committed s') = brokers d \<and>
              topics (committed s') = topics d
          | (s', Inl e) \<Rightarrow> committed s' = d"
  proof (cases r)
    case (Inl e)
    have "committed s1 = d"
      using deregister_try_Inl t Inl by (fastforce simp: open_session_def)
    then show ?thesis
      using t Inl by (simp add: dataset_message_deregister_def rollback_def)
  next
    case (Inr u)
    show ?thesis
      using deregister_try_Inr [OF _ pkl, of did s1 u] t Inr
      by (simp add: dataset_message_deregister_def open_session_def)
  qed
next
  assume "\<forall>row \<in> set (datasets d).
              dataset_info_id row = did \<longrightarrow> data_source_type row \<noteq> BROKER_DATA_SOURCE_TYPE"
  then have "filter (\<lambda>d. dataset_info_id d = did \<and> data_source_type d = BROKER_DATA_SOURCE_TYPE)
             (datasets d) = []"
    by (auto simp: filter_empty_conv)
  then show "dataset_message_deregister (open_session d fs) did =
                  (open_session d fs, Inl (NoResultFound (Dataset_not_found_for_id did)))"
    by (rule dataset_message_deregister_absent)
next
  assume a: "(\<exists>row \<in> set (datasets d).
              dataset_info_id row = did \<and> data_source_type row = BROKER_DATA_SOURCE_TYPE) \<and>
            length (filter (\<lambda>l. dataset_id l = did) (dataset_topics d)) \<le> 1"
  then obtain row where row: "row \<in> set (datasets d)" "dataset_info_id row = did"
    "data_source_type row = BROKER_DATA_SOURCE_TYPE"
    by blast
  have dd: "distinct (map dataset_info_id (datasets d))"
    using pk by (simp add: primary_keys_def)
  have "filter (\<lambda>x. dataset_info_id x = did) (datasets d) = [row]"
    using filter_key_unique' [OF dd row(1) row(2)] .
  then have "filter (\<lambda>x. data_source_type x = BROKER_DATA_SOURCE_TYPE)
               (filter (\<lambda>x. dataset_info_id x = did) (datasets d)) = [row]"
    using row(3) by simp
  then have f: "filter (\<lambda>d. dataset_info_id d = did
                 \<and> data_source_type d = BROKER_DATA_SOURCE_TYPE) (datasets d) = [row]"
    by (simp add: filter_filter conj_commute)
  show "\<exists>s'. dataset_message_deregister (open_session d []) did = (s', Inr ())"
    using dataset_message_deregister_success [OF f] a by blast
qed


theorem dataset_message_deregister_atomic_witness:
  "primary_keys example_store \<and>
   (\<exists>s'. dataset_message_deregister (open_session example_store []) 1 = (s', Inr ()) \<and>
          datasets (committed s')
            = filter (\<lambda>x. dataset_info_id x \<noteq> 1) (datasets example_store) \<and>
          dataset_topics (committed s')
            = filter (\<lambda>l. dataset_id l \<noteq> 1) (dataset_topics example_store)) \<and>
   dataset_message_deregister (open_session example_store []) 2 =
     (open_session example_store [], Inl (NoResultFound (Dataset_not_found_for_id 2))) \<and>
   dataset_message_deregister (open_session example_store []) 7 =
     (open_session example_store [], Inl (NoResultFound (Dataset_not_found_for_id 7)))"
proof -
  have pk: "primary_keys example_store" by (simp add: primary_keys_def example_store_def)
  have ex: "(\<exists>row \<in> set (datasets example_store).
              dataset_info_id row = 1 \<and> data_source_type row = BROKER_DATA_SOURCE_TYPE) \<and>
            length (filter (\<lambda>l. dataset_id l = 1) (dataset_topics example_store)) \<le> 1"
    by (simp add: example_store_def BROKER_DATA_SOURCE_TYPE_def)
  from dataset_message_deregister_atomic [OF pk, where did = 1 and fs = "[]"] ex
  obtain s' where run: "dataset_message_deregister (open_session example_store []) 1 = (s', Inr ())"
    by blast
  have "datasets (committed s')
            = filter (\<lambda>x. dataset_info_id x \<noteq> 1) (datasets example_store) \<and>
        dataset_topics (committed s')
            = filter (\<lambda>l. dataset_id l \<noteq> 1) (dataset_topics example_store)"
    using dataset_message_deregister_atomic [OF pk, where did = 1 and fs = "[]"] run by simp
  then have part1: "\<exists>s'. dataset_message_deregister (open_session example_store []) 1 = (s', Inr ()) \<and>
          datasets (committed s')
            = filter (\<lambda>x. dataset_info_id x \<noteq> 1) (datasets example_store) \<and>
          dataset_topics (committed s')
            = filter (\<lambda>l. dataset_id l \<noteq> 1) (dataset_topics example_store)"
    using run by blast
  have not_broker: "\<forall>row \<in> set (datasets example_store).
              dataset_info_id row = 2 \<longrightarrow> data_source_type row \<noteq> BROKER_DATA_SOURCE_TYPE"
    by (simp add: example_store_def BROKER_DATA_SOURCE_TYPE_def)
  have part2: "dataset_message_deregister (open_session example_store []) 2 =
     (open_session example_store [], Inl (NoResultFound (Dataset_not_found_for_id 2)))"
    using dataset_message_deregister_atomic [OF pk, where did = 2 and fs = "[]"] not_broker by blast
  have absent: "\<forall>row \<in> set (datasets example_store).
              dataset_info_id row = 7 \<longrightarrow> data_source_type row \<noteq> BROKER_DATA_SOURCE_TYPE"
    by (simp add: example_store_def)
  have part3: "dataset_message_deregister (open_session example_store []) 7 =
     (open_session example_store [], Inl (NoResultFound (Dataset_not_found_for_id 7)))"
    using dataset_message_deregister_atomic [OF pk, where did = 7 and fs = "[]"] absent by blast
  show ?thesis using pk part1 part2 part3 by blast
qed

subsection \<open>Deregistration of a topic\<close>

lemma topic_deregister_try_Inl:
  assumes "topic_deregister_try s tid = (s', Inl e)"
  shows "committed s' = committed s"
  using assms
  unfolding topic_deregister_try_def
  by (auto split: sum.splits prod.splits)
     (metis delete_topic_committed commit_Inl)+

lemma topic_deregister_try_Inr:
  assumes run: "topic_deregister_try s tid = (s', Inr u)"
  shows "tid \<in> set (map topic_details_id (topics (working s))) \<and>
         committed s' = (working s)
            \<lparr>topics := filter (\<lambda>t. topic_details_id t \<noteq> tid) (topics (working s)),
             dataset_topics := filter (\<lambda>l. topic_id l \<noteq> tid) (dataset_topics (working s))\<rparr>"
proof -
  from run obtain row s1 where
    o: "one (filter (\<lambda>t. topic_details_id t = tid) (topics (working s))) = Inr row"
    and dl: "delete_topic s row = (s1, Inr ())"
    and c: "commit s1 = (s', Inr ())"
    unfolding topic_deregister_try_def
    by (auto split: sum.splits prod.splits)
  have "row \<in> set (filter (\<lambda>t. topic_details_id t = tid) (topics (working s)))"
    using one_Inr_mem [OF o] by simp
  then have row: "row \<in> set (topics (working s))" "topic_details_id row = tid"
    by auto
  have "committed s' = working s1" using commit_Inr [OF c] by simp
  then have "committed s' = (working s)
            \<lparr>topics := filter (\<lambda>t. topic_details_id t \<noteq> tid) (topics (working s)),
             dataset_topics := filter (\<lambda>l. topic_id l \<noteq> tid) (dataset_topics (working s))\<rparr>"
    using delete_topic_Inr [OF dl] row(2) by simp
  moreover have "tid \<in> set (map topic_details_id (topics (working s)))"
    using row by force
  ultimately show ?thesis by blast
qed

lemma foreign_keys_after_topic_delete:
  assumes "foreign_keys d"
  shows "foreign_keys (d\<lparr>topics := filter (\<lambda>t. topic_details_id t \<noteq> tid) (topics d),
             dataset_topics := filter (\<lambda>l. topic_id l \<noteq> tid) (dataset_topics d)\<rparr>)"
  using assms unfolding foreign_keys_def by auto

text \<open>
  C6. On a store with unique primary keys and whatever the store answers to the
  statements: when \<^verbatim>\<open>topic_deregister\<close> returns, the topic id existed and the
  committed store is the old one without the topic row and without every link row whose
  \<^verbatim>\<open>topic_id\<close> is that id (the cascade of \<^verbatim>\<open>TopicDetails.dataset_topic_info\<close>), so
  that no link refers to the deleted topic and intact foreign keys stay intact; when it
  raises, the committed store is unchanged. For an existing id and a store that answers
  every statement the call returns; for an absent id it raises NoResultFound.
\<close>

theorem topic_deregister_cascades:
  assumes pk: "primary_keys d"
  shows "(case topic_deregister (open_session d fs) tid of
            (s', Inr u) \<Rightarrow>
              tid \<in> set (map topic_details_id (topics d)) \<and>
              topics (committed s') = filter (\<lambda>t. topic_details_id t \<noteq> tid) (topics d) \<and>
              dataset_topics (committed s')
                = filter (\<lambda>l. topic_id l \<noteq> tid) (dataset_topics d) \<and>
              brokers (committed s') = brokers d \<and>
              datasets (committed s') = datasets d \<and>
              tid \<notin> set (map topic_details_id (topics (committed s'))) \<and>
              tid \<notin> set (map topic_id (dataset_topics (committed s'))) \<and>
              (foreign_keys d \<longrightarrow> foreign_keys (committed s'))
          | (s', Inl e) \<Rightarrow> committed s' = d)
       \<and> (tid \<in> set (map topic_details_id (topics d)) \<longrightarrow>
            (\<exists>s'. topic_deregister (open_session d []) tid = (s', Inr ())))
       \<and> (tid \<notin> set (map topic_details_id (topics d)) \<longrightarrow>
            topic_deregister (open_session d fs) tid =
              (open_session d fs, Inl (NoResultFound (Topic_not_found_for_the_id tid))))"
proof (intro conjI impI)
  obtain s1 r where t: "topic_deregister_try (open_session d fs) tid = (s1, r)"
    by (cases "topic_deregister_try (open_session d fs) tid")
  show "case topic_deregister (open_session d fs) tid of
            (s', Inr u) \<Rightarrow>
              tid \<in> set (map topic_details_id (topics d)) \<and>
              topics (committed s') = filter (\<lambda>t. topic_details_id t \<noteq> tid) (topics d) \<and>
              dataset_topics (committed s')
                = filter (\<lambda>l. topic_id l \<noteq> tid) (dataset_topics d) \<and>
              brokers (committed s') = brokers d \<and>
              datasets (committed s') = datasets d \<and>
              tid \<notin> set (map topic_details_id (topics (committed s'))) \<and>
              tid \<notin> set (map topic_id (dataset_topics (committed s'))) \<and>
              (foreign_keys d \<longrightarrow> foreign_keys (committed s'))
          | (s', Inl e) \<Rightarrow> committed s' = d"
  proof (cases r)
    case (Inl e)
    have c: "committed s1 = d"
      using topic_deregister_try_Inl t Inl by (fastforce simp: open_session_def)
    show ?thesis
      using t Inl c by (simp add: topic_deregister_def)
  next
    case (Inr u)
    have m: "tid \<in> set (map topic_details_id (topics d))"
      and c: "committed s1 = d\<lparr>topics := filter (\<lambda>t. topic_details_id t \<noteq> tid) (topics d),
             dataset_topics := filter (\<lambda>l. topic_id l \<noteq> tid) (dataset_topics d)\<rparr>"
      using topic_deregister_try_Inr [of "open_session d fs" tid s1 u] t Inr
      by (simp_all add: open_session_def)
    have fkp: "foreign_keys d \<longrightarrow> foreign_keys (committed s1)"
      unfolding c using foreign_keys_after_topic_delete by blast
    have "tid \<notin> set (map topic_details_id (topics (committed s1)))"
      "tid \<notin> set (map topic_id (dataset_topics (committed s1)))"
      unfolding c by auto
    then show ?thesis
      using t Inr m fkp c by (simp add: topic_deregister_def)
  qed
next
  assume "tid \<in> set (map topic_details_id (topics d))"
  then obtain row where row: "row \<in> set (topics d)" "topic_details_id row = tid"
    by auto
  have dt: "distinct (map topic_details_id (topics d))"
    using pk by (simp add: primary_keys_def)
  have "filter (\<lambda>x. topic_details_id x = tid) (topics d) = [row]"
    using filter_key_unique' [OF dt row] .
  then show "\<exists>s'. topic_deregister (open_session d []) tid = (s', Inr ())"
    by (simp add: topic_deregister_def topic_deregister_try_def open_session_def
        delete_topic_def commit_def next_fault_def)
next
  assume "tid \<notin> set (map topic_details_id (topics d))"
  then have "filter (\<lambda>x. topic_details_id x = tid) (topics d) = []"
    by (rule filter_key_absent)
  then show "topic_deregister (open_session d fs) tid =
              (open_session d fs, Inl (NoResultFound (Topic_not_found_for_the_id tid)))"
    by (simp add: topic_deregister_def topic_deregister_try_def open_session_def)
qed

theorem topic_deregister_cascades_witness:
  "primary_keys example_store \<and> foreign_keys example_store \<and>
   (\<exists>s'. topic_deregister (open_session example_store []) 2 = (s', Inr ()) \<and>
          topics (committed s')
            = filter (\<lambda>t. topic_details_id t \<noteq> 2) (topics example_store) \<and>
          dataset_topics (committed s')
            = filter (\<lambda>l. topic_id l \<noteq> 2) (dataset_topics example_store) \<and>
          foreign_keys (committed s')) \<and>
   filter (\<lambda>l. topic_id l \<noteq> 2) (dataset_topics example_store) = [] \<and>
   topic_deregister (open_session example_store []) 9 =
     (open_session example_store [], Inl (NoResultFound (Topic_not_found_for_the_id 9)))"
proof -
  have pk: "primary_keys example_store" by (simp add: primary_keys_def example_store_def)
  have fk: "foreign_keys example_store" by (simp add: foreign_keys_def example_store_def)
  have ex: "2 \<in> set (map topic_details_id (topics example_store))"
    by (simp add: example_store_def)
  from topic_deregister_cascades [OF pk, where tid = 2 and fs = "[]"] ex
  obtain s' where run: "topic_deregister (open_session example_store []) 2 = (s', Inr ())"
    by blast
  have "topics (committed s')
            = filter (\<lambda>t. topic_details_id t \<noteq> 2) (topics example_store) \<and>
        dataset_topics (committed s')
            = filter (\<lambda>l. topic_id l \<noteq> 2) (dataset_topics example_store) \<and>
        foreign_keys (committed s')"
    using topic_deregister_cascades [OF pk, where tid = 2 and fs = "[]"] run fk by simp
  then have part1: "\<exists>s'. topic_deregister (open_session example_store []) 2 = (s', Inr ()) \<and>
          topics (committed s')
            = filter (\<lambda>t. topic_details_id t \<noteq> 2) (topics example_store) \<and>
          dataset_topics (committed s')
            = filter (\<lambda>l. topic_id l \<noteq> 2) (dataset_topics example_store) \<and>
          foreign_keys (committed s')"
    using run by blast
  have gone: "filter (\<lambda>l. topic_id l \<noteq> 2) (dataset_topics example_store) = []"
    by (simp add: example_store_def)
  have absent: "9 \<notin> set (map topic_details_id (topics example_store))"
    by (simp add: example_store_def)
  have part2: "topic_deregister (open_session example_store []) 9 =
     (open_session example_store [], Inl (NoResultFound (Topic_not_found_for_the_id 9)))"
    using topic_deregister_cascades [OF pk, where tid = 9 and fs = "[]"] absent by blast
  show ?thesis using pk fk part1 gone part2 by blast
qed

subsection \<open>Partial update of a broker\<close>

lemma setattr_id: "broker_details_id (setattr_BrokerDetails r key v) = broker_details_id r"
  and setattr_date: "broker_creation_date (setattr_BrokerDetails r key v) = broker_creation_date r"
  by (auto simp: setattr_BrokerDetails_def split: attribute_value.splits)

lemma set_supplied_attributes_eq:
  "set_supplied_attributes (BrokerUpdate_dict u) r =
     r\<lparr>broker_name := (case update_broker_name u of None \<Rightarrow> broker_name r | Some x \<Rightarrow> x),
       broker_ip := (case update_broker_ip u of None \<Rightarrow> broker_ip r | Some x \<Rightarrow> x),
       broker_port := (case update_broker_port u of None \<Rightarrow> broker_port r | Some n \<Rightarrow> n)\<rparr>"
  by (cases "update_broker_name u"; cases "update_broker_ip u"; cases "update_broker_port u")
     (simp_all add: set_supplied_attributes_def BrokerUpdate_dict_def setattr_BrokerDetails_def
        validate_broker_ip_def)


lemma update_broker_row_committed:
  "update_broker_row s old new = (s1, r) \<Longrightarrow> committed s1 = committed s"
  by (auto simp: update_broker_row_def split: prod.splits option.splits if_splits
      dest: next_fault_frame)

lemma update_broker_row_Inr:
  "update_broker_row s old new = (s1, Inr u) \<Longrightarrow>
     working s1 = working s \<and> new = old \<or>
     working s1 = (working s)\<lparr>brokers :=
        map (\<lambda>b. if broker_details_id b = broker_details_id old then new else b)
            (brokers (working s))\<rparr>"
  by (auto simp: update_broker_row_def split: prod.splits option.splits if_splits
      dest: next_fault_frame)

lemma update_record_try_Inl:
  assumes "update_record_try s bid u = (s', Inl e)"
  shows "committed s' = committed s"
  using assms
  unfolding update_record_try_def Let_def
  by (auto split: sum.splits prod.splits)
     (metis update_broker_row_committed commit_Inl)+

lemma map_single_row:
  assumes "filter (\<lambda>b. f b = k) xs = [r]"
  shows "map (\<lambda>b. if f b = k then r else b) xs = xs"
proof -
  have "b = r" if "b \<in> set xs" "f b = k" for b
  proof -
    have "b \<in> set (filter (\<lambda>b. f b = k) xs)" using that by simp
    then show ?thesis using assms by simp
  qed
  then show ?thesis by (simp add: map_idI)
qed

lemma update_record_try_Inr:
  assumes run: "update_record_try s bid u = (s', Inr resp)"
  shows "\<exists>rec.
           filter (\<lambda>b. broker_details_id b = bid) (brokers (working s)) = [rec] \<and>
           resp = set_supplied_attributes (BrokerUpdate_dict u) rec \<and>
           committed s' = (working s)\<lparr>brokers :=
              map (\<lambda>b. if broker_details_id b = bid then resp else b)
                  (brokers (working s))\<rparr>"
proof -
  from run obtain rec s1 where
    o: "one (filter (\<lambda>b. broker_details_id b = bid) (brokers (working s))) = Inr rec"
    and up: "update_broker_row s rec
               (set_supplied_attributes (BrokerUpdate_dict u) rec) = (s1, Inr ())"
    and c: "commit s1 = (s', Inr ())"
    and r: "resp = set_supplied_attributes (BrokerUpdate_dict u) rec"
    unfolding update_record_try_def Let_def
    by (auto split: sum.splits prod.splits)
  have f: "filter (\<lambda>b. broker_details_id b = bid) (brokers (working s)) = [rec]"
    using one_Inr_mem [OF o] .
  then have "rec \<in> set (filter (\<lambda>b. broker_details_id b = bid) (brokers (working s)))"
    by simp
  then have rid: "broker_details_id rec = bid" by simp
  have k: "committed s' = working s1" using commit_Inr [OF c] by simp
  have "working s1 = (working s)\<lparr>brokers :=
              map (\<lambda>b. if broker_details_id b = bid then resp else b)
                  (brokers (working s))\<rparr>"
  proof (cases "set_supplied_attributes (BrokerUpdate_dict u) rec = rec")
    case True
    then have "working s1 = working s"
      using up by (simp add: update_broker_row_def)
    moreover have "map (\<lambda>b. if broker_details_id b = bid then resp else b)
                     (brokers (working s)) = brokers (working s)"
      unfolding r True by (rule map_single_row [OF f])
    ultimately show ?thesis by simp
  next
    case False
    then show ?thesis
      using update_broker_row_Inr [OF up] rid r by simp
  qed
  then show ?thesis using f r k by simp
qed


lemma update_broker_absent:
  assumes "bid \<notin> set (map broker_details_id (brokers d))"
  shows "update_broker (open_session d fs) bid u =
           (open_session d fs,
            Inl (NoResultFound (No_entity_found_for_ID ''BrokerDetails'' bid)))"
proof -
  have "filter (\<lambda>b. broker_details_id b = bid) (brokers d) = []"
    using assms by (rule filter_key_absent)
  then show ?thesis
    by (simp add: update_broker_def update_record_def update_record_try_def open_session_def)
qed

lemma update_broker_success:
  assumes f: "filter (\<lambda>b. broker_details_id b = bid) (brokers d) = [rec]"
    and uq: "unique_broker_per_dataset d"
    and free: "\<forall>x. update_broker_name u = Some x \<longrightarrow>
                 (\<forall>b \<in> set (brokers d). broker_details_id b \<noteq> bid \<longrightarrow> broker_name b \<noteq> x)"
  shows "\<exists>s' resp. update_broker (open_session d []) bid u = (s', Inr resp)"
proof -
  let ?new = "set_supplied_attributes (BrokerUpdate_dict u) rec"
  have "rec \<in> set (filter (\<lambda>b. broker_details_id b = bid) (brokers d))" using f by simp
  then have rid: "broker_details_id rec = bid" and mem: "rec \<in> set (brokers d)" by auto
  have nm: "broker_name ?new = (case update_broker_name u of None \<Rightarrow> broker_name rec | Some x \<Rightarrow> x)"
    by (simp add: set_supplied_attributes_eq)
  have noclash: "broker_name b \<noteq> broker_name ?new"
    if b: "b \<in> set (brokers d)" "broker_details_id b \<noteq> broker_details_id rec" for b
  proof (cases "update_broker_name u")
    case None
    have "b \<noteq> rec" using b(2) by auto
    then have "broker_name b \<noteq> broker_name rec"
      using uq b(1) mem distinct_map_eq [of broker_name "brokers d" b rec]
      unfolding unique_broker_per_dataset_def by blast
    then show ?thesis using nm None by simp
  next
    case (Some x)
    then show ?thesis using free b rid nm by simp
  qed
  show ?thesis
  proof (cases "?new = rec")
    case True
    then show ?thesis
      using f
      by (simp add: update_broker_def update_record_def update_record_try_def open_session_def
          update_broker_row_def commit_def next_fault_def Let_def)
  next
    case False
    have "\<not> (\<exists>b \<in> set (brokers d).
              broker_details_id b \<noteq> broker_details_id rec \<and> broker_name b = broker_name ?new)"
      using noclash by blast
    then show ?thesis
      using f False
      by (simp add: update_broker_def update_record_def update_record_try_def
          open_session_def update_broker_row_def commit_def next_fault_def Let_def)
  qed
qed


lemma only_supplied_fields_changed_refl: "only_supplied_fields_changed u bid b b"
  by (simp add: only_supplied_fields_changed_def)

lemma only_supplied_fields_changed_patch:
  "broker_details_id b = bid \<Longrightarrow>
   only_supplied_fields_changed u bid b (set_supplied_attributes (BrokerUpdate_dict u) b)"
  by (cases "update_broker_name u"; cases "update_broker_ip u"; cases "update_broker_port u")
     (simp_all add: only_supplied_fields_changed_def set_supplied_attributes_eq)

text \<open>
  C9. Whatever the store answers to the statements: when \<^verbatim>\<open>update_broker\<close> returns,
  the committed broker table is the old one row by row, where every row keeps its id and
  creation date, every row of another id is unchanged, and in the row of the id every
  field the patch does not supply is unchanged while every supplied field has the value
  of the patch; topics, datasets and links are unchanged. When it raises, the committed
  store is unchanged. For an id that no broker row has it raises NoResultFound and the
  session is as it was. For an existing id, on a store that keeps its primary keys and
  \<^verbatim>\<open>unique_broker_per_dataset\<close> and answers every statement, with a new name (if one
  is supplied) that no other broker carries, the call returns.
\<close>

theorem update_broker_frame:
  "(case update_broker (open_session d fs) bid u of
      (s', Inr resp) \<Rightarrow>
        list_all2 (only_supplied_fields_changed u bid) (brokers d) (brokers (committed s')) \<and>
        topics (committed s') = topics d \<and>
        datasets (committed s') = datasets d \<and>
        dataset_topics (committed s') = dataset_topics d \<and>
        resp \<in> set (brokers (committed s')) \<and>
        broker_details_id resp = bid \<and>
        (\<forall>x. update_broker_name u = Some x \<longrightarrow> broker_name resp = x) \<and>
        (\<forall>x. update_broker_ip u = Some x \<longrightarrow> broker_ip resp = x) \<and>
        (\<forall>n. update_broker_port u = Some n \<longrightarrow> broker_port resp = n)
    | (s', Inl e) \<Rightarrow> committed s' = d)
   \<and> (bid \<notin> set (map broker_details_id (brokers d)) \<longrightarrow>
        update_broker (open_session d fs) bid u =
          (open_session d fs,
           Inl (NoResultFound (No_entity_found_for_ID ''BrokerDetails'' bid))))
   \<and> (primary_keys d \<and> unique_broker_per_dataset d \<and>
        bid \<in> set (map broker_details_id (brokers d)) \<and>
        (\<forall>x. update_broker_name u = Some x \<longrightarrow>
           (\<forall>b \<in> set (brokers d). broker_details_id b \<noteq> bid \<longrightarrow> broker_name b \<noteq> x))
        \<longrightarrow> (\<exists>s' resp. update_broker (open_session d []) bid u = (s', Inr resp)))"
proof (intro conjI impI)
  obtain s1 r where t: "update_record_try (open_session d fs) bid u = (s1, r)"
    by (cases "update_record_try (open_session d fs) bid u")
  show "case update_broker (open_session d fs) bid u of
      (s', Inr resp) \<Rightarrow>
        list_all2 (only_supplied_fields_changed u bid) (brokers d) (brokers (committed s')) \<and>
        topics (committed s') = topics d \<and>
        datasets (committed s') = datasets d \<and>
        dataset_topics (committed s') = dataset_topics d \<and>
        resp \<in> set (brokers (committed s')) \<and>
        broker_details_id resp = bid \<and>
        (\<forall>x. update_broker_name u = Some x \<longrightarrow> broker_name resp = x) \<and>
        (\<forall>x. update_broker_ip u = Some x \<longrightarrow> broker_ip resp = x) \<and>
        (\<forall>n. update_broker_port u = Some n \<longrightarrow> broker_port resp = n)
    | (s', Inl e) \<Rightarrow> committed s' = d"
  proof (cases r)
    case (Inl e)
    have "committed s1 = d"
      using update_record_try_Inl t Inl by (fastforce simp: open_session_def)
    then show ?thesis
      using t Inl by (simp add: update_broker_def update_record_def)
  next
    case (Inr resp)
    from update_record_try_Inr [of "open_session d fs" bid u s1 resp] t Inr
    obtain rec where
      f: "filter (\<lambda>b. broker_details_id b = bid) (brokers d) = [rec]"
      and r: "resp = set_supplied_attributes (BrokerUpdate_dict u) rec"
      and c: "committed s1 = d\<lparr>brokers :=
              map (\<lambda>b. if broker_details_id b = bid then resp else b) (brokers d)\<rparr>"
      by (auto simp: open_session_def)
    have "rec \<in> set (filter (\<lambda>b. broker_details_id b = bid) (brokers d))" using f by simp
    then have rid: "broker_details_id rec = bid" and mem: "rec \<in> set (brokers d)" by auto
    have same: "b = rec" if "b \<in> set (brokers d)" "broker_details_id b = bid" for b
    proof -
      have "b \<in> set (filter (\<lambda>b. broker_details_id b = bid) (brokers d))" using that by simp
      then show ?thesis using f by simp
    qed
    have each: "only_supplied_fields_changed u bid b
              (if broker_details_id b = bid then resp else b)"
      if b: "b \<in> set (brokers d)" for b
    proof (cases "broker_details_id b = bid")
      case True
      then have "b = rec" using same b by blast
      then show ?thesis
        using True r only_supplied_fields_changed_patch by simp
    next
      case False
      then show ?thesis by (simp add: only_supplied_fields_changed_refl)
    qed
    have frame: "list_all2 (only_supplied_fields_changed u bid) (brokers d)
                   (map (\<lambda>b. if broker_details_id b = bid then resp else b) (brokers d))"
      using each by (simp add: list_all2_map2 list_all2_same)
    have rm: "resp \<in> set (map (\<lambda>b. if broker_details_id b = bid then resp else b) (brokers d))"
      using mem rid by force
    have rbid: "broker_details_id resp = bid"
      using r rid by (simp add: set_supplied_attributes_eq)
    have vals: "(\<forall>x. update_broker_name u = Some x \<longrightarrow> broker_name resp = x) \<and>
        (\<forall>x. update_broker_ip u = Some x \<longrightarrow> broker_ip resp = x) \<and>
        (\<forall>n. update_broker_port u = Some n \<longrightarrow> broker_port resp = n)"
      using r by (simp add: set_supplied_attributes_eq)
    show ?thesis
      using t Inr frame rm rbid vals
      by (simp add: update_broker_def update_record_def c)
  qed
next
  assume "bid \<notin> set (map broker_details_id (brokers d))"
  then show "update_broker (open_session d fs) bid u =
          (open_session d fs,
           Inl (NoResultFound (No_entity_found_for_ID ''BrokerDetails'' bid)))"
    by (rule update_broker_absent)
next
  assume a: "primary_keys d \<and> unique_broker_per_dataset d \<and>
        bid \<in> set (map broker_details_id (brokers d)) \<and>
        (\<forall>x. update_broker_name u = Some x \<longrightarrow>
           (\<forall>b \<in> set (brokers d). broker_details_id b \<noteq> bid \<longrightarrow> broker_name b \<noteq> x))"
  then obtain rec where rec: "rec \<in> set (brokers d)" "broker_details_id rec = bid"
    by auto
  have db: "distinct (map broker_details_id (brokers d))"
    using a by (simp add: primary_keys_def)
  have f: "filter (\<lambda>b. broker_details_id b = bid) (brokers d) = [rec]"
    using filter_key_unique' [OF db rec] .
  show "\<exists>s' resp. update_broker (open_session d []) bid u = (s', Inr resp)"
    using update_broker_success [OF f] a by blast
qed

theorem update_broker_frame_witness:
  "(\<exists>s' resp.
      update_broker (open_session example_store []) 1
        \<lparr>update_broker_name = None, update_broker_ip = None, update_broker_port = Some 9094\<rparr>
        = (s', Inr resp) \<and>
      list_all2 (only_supplied_fields_changed
                   \<lparr>update_broker_name = None, update_broker_ip = None,
                    update_broker_port = Some 9094\<rparr> 1)
        (brokers example_store) (brokers (committed s')) \<and>
      topics (committed s') = topics example_store \<and>
      broker_port resp = 9094 \<and> broker_details_id resp = 1) \<and>
   update_broker (open_session example_store []) 7
     \<lparr>update_broker_name = None, update_broker_ip = None, update_broker_port = Some 9094\<rparr> =
     (open_session example_store [],
      Inl (NoResultFound (No_entity_found_for_ID ''BrokerDetails'' 7)))"
proof -
  let ?u = "\<lparr>update_broker_name = None, update_broker_ip = None,
              update_broker_port = Some 9094\<rparr>"
  have h: "primary_keys example_store \<and> unique_broker_per_dataset example_store \<and>
        1 \<in> set (map broker_details_id (brokers example_store)) \<and>
        (\<forall>x. update_broker_name ?u = Some x \<longrightarrow>
           (\<forall>b \<in> set (brokers example_store).
              broker_details_id b \<noteq> 1 \<longrightarrow> broker_name b \<noteq> x))"
    by (simp add: primary_keys_def unique_broker_per_dataset_def example_store_def)
  from update_broker_frame [where d = example_store and fs = "[]" and bid = 1 and u = ?u] h
  obtain s' resp where
    run: "update_broker (open_session example_store []) 1 ?u = (s', Inr resp)"
    by blast
  have "list_all2 (only_supplied_fields_changed ?u 1)
          (brokers example_store) (brokers (committed s')) \<and>
        topics (committed s') = topics example_store \<and>
        broker_port resp = 9094 \<and> broker_details_id resp = 1"
    using update_broker_frame [where d = example_store and fs = "[]" and bid = 1 and u = ?u]
      run by simp
  then have part1: "\<exists>s' resp.
      update_broker (open_session example_store []) 1 ?u = (s', Inr resp) \<and>
      list_all2 (only_supplied_fields_changed ?u 1)
        (brokers example_store) (brokers (committed s')) \<and>
      topics (committed s') = topics example_store \<and>
      broker_port resp = 9094 \<and> broker_details_id resp = 1"
    using run by blast
  have absent: "7 \<notin> set (map broker_details_id (brokers example_store))"
    by (simp add: example_store_def)
  have part2: "update_broker (open_session example_store []) 7 ?u =
     (open_session example_store [],
      Inl (NoResultFound (No_entity_found_for_ID ''BrokerDetails'' 7)))"
    using update_broker_frame [where d = example_store and fs = "[]" and bid = 7 and u = ?u]
      absent by blast
  show ?thesis using part1 part2 by blast
qed

subsection \<open>Stream reader\<close>

lemma open_consumers_opened_closed:
  "open_consumers (log @ [Opened c, Closed c]) = open_consumers log"
  by (simp add: open_consumers_def)

text \<open>
  C2. Once the consumer is constructed, every way out of \<^verbatim>\<open>__fetch_stream_data\<close>
  closes it: whether the poll raises (a transport or a decoding error), returns nothing
  (NoMessagesFound) or returns records, the events of the call are the opening of the
  consumer followed by its closing, so the sessions open after the call are those open
  before it; and the same holds of \<^verbatim>\<open>fetch_dataset_topic_data\<close> once the dataset
  resolves.
\<close>

theorem consumer_closed_on_every_exit:
  assumes con: "connect k (consumer_for td off) = None"
  shows "(\<forall>e. poll k (consumer_for td off) STREAM_TIMEOUT n = Inl e \<longrightarrow>
            fetch_stream_data k log td off n =
              (log @ [Opened (consumer_for td off), Closed (consumer_for td off)], Inl e))
       \<and> (poll k (consumer_for td off) STREAM_TIMEOUT n = Inr [] \<longrightarrow>
            fetch_stream_data k log td off n =
              (log @ [Opened (consumer_for td off), Closed (consumer_for td off)],
               Inl (NoMessagesFound (No_messages_in_stream_topic (stream_topic_name td)))))
       \<and> (\<forall>msgs. poll k (consumer_for td off) STREAM_TIMEOUT n = Inr msgs \<and> msgs \<noteq> [] \<longrightarrow>
            fetch_stream_data k log td off n =
              (log @ [Opened (consumer_for td off), Closed (consumer_for td off)],
               Inr (concat (map snd msgs))))
       \<and> fst (fetch_stream_data k log td off n)
            = log @ [Opened (consumer_for td off), Closed (consumer_for td off)]
       \<and> open_consumers (fst (fetch_stream_data k log td off n)) = open_consumers log
       \<and> (\<forall>s did. get_topic_and_broker_details s did = Inr td \<longrightarrow>
            fst (fetch_dataset_topic_data k log s did n off)
              = log @ [Opened (consumer_for td off), Closed (consumer_for td off)] \<and>
            open_consumers (fst (fetch_dataset_topic_data k log s did n off))
              = open_consumers log)"
proof -
  have f: "fst (fetch_stream_data k log td off n)
            = log @ [Opened (consumer_for td off), Closed (consumer_for td off)]"
    using con by (simp add: fetch_stream_data_def Let_def)
  have g: "fst (fetch_dataset_topic_data k log s did n off)
              = log @ [Opened (consumer_for td off), Closed (consumer_for td off)]"
    if "get_topic_and_broker_details s did = Inr td" for s did
    using that f
    by (cases "fetch_stream_data k log td off n")
       (auto simp: fetch_dataset_topic_data_def split: sum.splits)
  show ?thesis
    using con f g
    by (auto simp: fetch_stream_data_def Let_def open_consumers_opened_closed)
qed

theorem consumer_closed_on_every_exit_witness:
  "fetch_stream_data
     \<lparr>connect = (\<lambda>c. None), poll = (\<lambda>c t m. Inl (KafkaError ''decode''))\<rparr> []
     \<lparr>stream_topic_name = ''telemetry'', stream_broker_ip = ''10.0.0.2'',
      stream_broker_port = 9093\<rparr> latest (Some 10)
     = ([Opened (consumer_for \<lparr>stream_topic_name = ''telemetry'',
                               stream_broker_ip = ''10.0.0.2'',
                               stream_broker_port = 9093\<rparr> latest),
         Closed (consumer_for \<lparr>stream_topic_name = ''telemetry'',
                               stream_broker_ip = ''10.0.0.2'',
                               stream_broker_port = 9093\<rparr> latest)],
        Inl (KafkaError ''decode'')) \<and>
   fetch_stream_data (stream_client 500 []) []
     \<lparr>stream_topic_name = ''telemetry'', stream_broker_ip = ''10.0.0.2'',
      stream_broker_port = 9093\<rparr> latest (Some 10)
     = ([Opened (consumer_for \<lparr>stream_topic_name = ''telemetry'',
                               stream_broker_ip = ''10.0.0.2'',
                               stream_broker_port = 9093\<rparr> latest),
         Closed (consumer_for \<lparr>stream_topic_name = ''telemetry'',
                               stream_broker_ip = ''10.0.0.2'',
                               stream_broker_port = 9093\<rparr> latest)],
        Inl (NoMessagesFound (No_messages_in_stream_topic ''telemetry''))) \<and>
   fetch_stream_data (stream_client 500 [(0, [''1'', ''2''])]) []
     \<lparr>stream_topic_name = ''telemetry'', stream_broker_ip = ''10.0.0.2'',
      stream_broker_port = 9093\<rparr> latest (Some 10)
     = ([Opened (consumer_for \<lparr>stream_topic_name = ''telemetry'',
                               stream_broker_ip = ''10.0.0.2'',
                               stream_broker_port = 9093\<rparr> latest),
         Closed (consumer_for \<lparr>stream_topic_name = ''telemetry'',
                               stream_broker_ip = ''10.0.0.2'',
                               stream_broker_port = 9093\<rparr> latest)],
        Inr [''1'', ''2'']) \<and>
   open_consumers
     (fst (fetch_dataset_topic_data (stream_client 500 []) []
             (open_session example_store []) 1 (Some 10) latest)) = open_consumers []"
proof -
  let ?td = "\<lparr>stream_topic_name = ''telemetry'', stream_broker_ip = ''10.0.0.2'',
               stream_broker_port = 9093\<rparr>"
  let ?k1 = "\<lparr>connect = (\<lambda>c. None), poll = (\<lambda>c t m. Inl (KafkaError ''decode''))\<rparr>"
  let ?k2 = "stream_client 500 []"
  let ?k3 = "stream_client 500 [(0, [''1'', ''2''])]"
  have c1: "connect ?k1 (consumer_for ?td latest) = None" by simp
  have c2: "connect ?k2 (consumer_for ?td latest) = None" by (simp add: stream_client_def)
  have c3: "connect ?k3 (consumer_for ?td latest) = None" by (simp add: stream_client_def)
  have p1: "poll ?k1 (consumer_for ?td latest) STREAM_TIMEOUT (Some 10)
              = Inl (KafkaError ''decode'')"
    by simp
  have p2: "poll ?k2 (consumer_for ?td latest) STREAM_TIMEOUT (Some 10) = Inr []"
    by (simp add: stream_client_def)
  have p3: "poll ?k3 (consumer_for ?td latest) STREAM_TIMEOUT (Some 10)
              = Inr [(0, [''1'', ''2''])]
            \<and> [(0::nat, [''1'', ''2''])] \<noteq> []"
    by (simp add: stream_client_def)
  have res: "get_topic_and_broker_details (open_session example_store []) 1 = Inr ?td"
    by (simp add: get_topic_and_broker_details_def open_session_def example_store_def)
  have r1: "fetch_stream_data ?k1 [] ?td latest (Some 10)
     = ([Opened (consumer_for ?td latest), Closed (consumer_for ?td latest)],
        Inl (KafkaError ''decode''))"
    using consumer_closed_on_every_exit [OF c1, of "Some 10" "[]"] p1 by simp
  have r2: "fetch_stream_data ?k2 [] ?td latest (Some 10)
     = ([Opened (consumer_for ?td latest), Closed (consumer_for ?td latest)],
        Inl (NoMessagesFound (No_messages_in_stream_topic ''telemetry'')))"
    using consumer_closed_on_every_exit [OF c2, of "Some 10" "[]"] p2 by simp
  have r3: "fetch_stream_data ?k3 [] ?td latest (Some 10)
     = ([Opened (consumer_for ?td latest), Closed (consumer_for ?td latest)],
        Inr [''1'', ''2''])"
    using consumer_closed_on_every_exit [OF c3, of "Some 10" "[]"] p3 by simp
  have r4: "open_consumers
     (fst (fetch_dataset_topic_data ?k2 [] (open_session example_store []) 1 (Some 10) latest))
       = open_consumers []"
    using consumer_closed_on_every_exit [OF c2, of "Some 10" "[]"] res by blast
  show ?thesis using r1 r2 r3 r4 by blast
qed

lemma take_records_contract: "poll_contract (take_records n stream)"
proof (induction stream arbitrary: n)
  case Nil
  show ?case by (simp add: poll_contract_def)
next
  case (Cons a stream)
  obtain p rs where a: "a = (p, rs)" by (cases a)
  show ?case
  proof (cases "n = 0 \<or> rs = []")
    case True
    then show ?thesis using Cons a by auto
  next
    case False
    then have "take n rs \<noteq> []" by simp
    moreover have "poll_contract (take_records (n - length (take n rs)) stream)"
      using Cons by blast
    ultimately show ?thesis
      using False a by (simp add: poll_contract_def)
  qed
qed

lemma poll_contract_no_records:
  assumes "poll_contract msgs" and "concat (map snd msgs) = []"
  shows "msgs = []"
proof (cases msgs)
  case Nil
  then show ?thesis .
next
  case (Cons m ms)
  obtain p rs where m: "m = (p, rs)" by (cases m)
  have "rs \<noteq> []" using assms(1) Cons m by (simp add: poll_contract_def)
  then show ?thesis using assms(2) Cons m by simp
qed

lemma poll_contract_records:
  assumes "poll_contract msgs" and "msgs \<noteq> []"
  shows "concat (map snd msgs) \<noteq> []"
  using assms poll_contract_no_records by blast

text \<open>
  C8. Let the dataset resolve to its topic and broker, let the consumer be constructed
  (the broker is reachable), and let the poll return within its window a dictionary that
  keeps the client's contract. If it holds no record, \<^verbatim>\<open>fetch_dataset_topic_data\<close>
  raises NoMessagesFound for the topic, which is not a NoResultFound; and whenever the
  call returns a result, its record list is not empty and \<^verbatim>\<open>record_count\<close> is its
  length.
\<close>

theorem no_messages_found_not_empty_success:
  assumes res: "get_topic_and_broker_details s did = Inr td"
    and con: "connect k (consumer_for td off) = None"
    and pol: "poll k (consumer_for td off) STREAM_TIMEOUT n = Inr msgs"
    and contract: "poll_contract msgs"
  shows "(concat (map snd msgs) = [] \<longrightarrow>
            snd (fetch_dataset_topic_data k log s did n off) =
              Inl (NoMessagesFound (No_messages_in_stream_topic (stream_topic_name td))) \<and>
            (\<forall>m. snd (fetch_dataset_topic_data k log s did n off) \<noteq> Inl (NoResultFound m)))
       \<and> (\<forall>data. snd (fetch_dataset_topic_data k log s did n off) = Inr data \<longrightarrow>
            records data \<noteq> [] \<and>
            records data = concat (map snd msgs) \<and>
            record_count data = int (length (records data)) \<and>
            0 < record_count data)"
proof (cases "msgs = []")
  case True
  then show ?thesis
    using res con pol
    by (simp add: fetch_dataset_topic_data_def fetch_stream_data_def Let_def)
next
  case False
  have ne: "concat (map snd msgs) \<noteq> []"
    using poll_contract_records [OF contract False] .
  have run: "snd (fetch_dataset_topic_data k log s did n off) =
          Inr \<lparr>data_dataset_id = did, records = concat (map snd msgs),
               record_count = int (length (concat (map snd msgs))),
               data_topic_name = stream_topic_name td\<rparr>"
    using res con pol False
    by (simp add: fetch_dataset_topic_data_def fetch_stream_data_def Let_def)
  have "0 < length (concat (map snd msgs))" using ne by blast
  then show ?thesis
    using ne unfolding run by auto
qed

theorem no_messages_found_not_empty_success_witness:
  "snd (fetch_dataset_topic_data (stream_client 500 []) []
          (open_session example_store []) 1 (Some 10) latest) =
     Inl (NoMessagesFound (No_messages_in_stream_topic ''telemetry'')) \<and>
   (\<exists>data. snd (fetch_dataset_topic_data
                   (stream_client 500 [(0, [''1'', ''2'', ''3''])]) []
                   (open_session example_store []) 1 (Some 10) earliest) = Inr data \<and>
           records data = [''1'', ''2'', ''3''] \<and> record_count data = 3)"
proof -
  let ?td = "\<lparr>stream_topic_name = ''telemetry'', stream_broker_ip = ''10.0.0.2'',
               stream_broker_port = 9093\<rparr>"
  let ?k0 = "stream_client 500 []"
  let ?k3 = "stream_client 500 [(0, [''1'', ''2'', ''3''])]"
  have res: "get_topic_and_broker_details (open_session example_store []) 1 = Inr ?td"
    by (simp add: get_topic_and_broker_details_def open_session_def example_store_def)
  have c0: "connect ?k0 (consumer_for ?td latest) = None" by (simp add: stream_client_def)
  have p0: "poll ?k0 (consumer_for ?td latest) STREAM_TIMEOUT (Some 10) = Inr []"
    by (simp add: stream_client_def)
  have w0: "poll_contract []" by (simp add: poll_contract_def)
  have z0: "concat (map snd ([] :: (partition \<times> json list) list)) = []" by simp
  have part1: "snd (fetch_dataset_topic_data ?k0 [] (open_session example_store []) 1
                      (Some 10) latest) =
     Inl (NoMessagesFound (No_messages_in_stream_topic ''telemetry''))"
    using no_messages_found_not_empty_success [OF res c0 p0 w0, of "[]"] z0 by simp
  have c3: "connect ?k3 (consumer_for ?td earliest) = None" by (simp add: stream_client_def)
  have p3: "poll ?k3 (consumer_for ?td earliest) STREAM_TIMEOUT (Some 10)
              = Inr [(0, [''1'', ''2'', ''3''])]"
    by (simp add: stream_client_def)
  have w3: "poll_contract [(0, [''1'', ''2'', ''3''])]"
    by (simp add: poll_contract_def)
  have run3: "\<exists>data. snd (fetch_dataset_topic_data ?k3 []
                   (open_session example_store []) 1 (Some 10) earliest) = Inr data"
    using res
    by (simp add: fetch_dataset_topic_data_def fetch_stream_data_def Let_def
        stream_client_def consumer_for_def)
  then obtain data where
    d: "snd (fetch_dataset_topic_data ?k3 []
               (open_session example_store []) 1 (Some 10) earliest) = Inr data"
    by blast
  have "records data = [''1'', ''2'', ''3''] \<and> record_count data = 3"
    using no_messages_found_not_empty_success [OF res c3 p3 w3, of "[]"] d by simp
  then have part2: "\<exists>data. snd (fetch_dataset_topic_data ?k3 []
                   (open_session example_store []) 1 (Some 10) earliest) = Inr data \<and>
           records data = [''1'', ''2'', ''3''] \<and> record_count data = 3"
    using d by blast
  show ?thesis using part1 part2 by blast
qed

text \<open>
  C3. The dataset 1 of the example store resolves to the topic \<open>telemetry\<close>, which holds
  201 records, and the consumer has the limit \<open>max_poll_records = 500\<close> that the client
  library gives a consumer constructed without one, as the service constructs it. The
  call without \<^verbatim>\<open>no_of_records\<close> hands \<open>None\<close> to the poll and returns all 201
  records, more than \<^verbatim>\<open>DEFAULT_STREAM_DATA_COUNT\<close>; the call with
  \<^verbatim>\<open>no_of_records = 200\<close> returns 200.
\<close>

theorem default_stream_data_count_not_applied:
  "snd (fetch_dataset_topic_data (stream_client 500 [(0, replicate 201 ''{}'')]) []
          (open_session example_store []) 1 None latest) =
     Inr \<lparr>data_dataset_id = 1, records = replicate 201 ''{}'', record_count = 201,
          data_topic_name = ''telemetry''\<rparr> \<and>
   DEFAULT_STREAM_DATA_COUNT < 201 \<and>
   snd (fetch_dataset_topic_data (stream_client 500 [(0, replicate 201 ''{}'')]) []
          (open_session example_store []) 1 (Some DEFAULT_STREAM_DATA_COUNT) latest) =
     Inr \<lparr>data_dataset_id = 1, records = replicate 200 ''{}'', record_count = 200,
          data_topic_name = ''telemetry''\<rparr>"
proof -
  have res: "get_topic_and_broker_details (open_session example_store []) 1 =
               Inr \<lparr>stream_topic_name = ''telemetry'', stream_broker_ip = ''10.0.0.2'',
                    stream_broker_port = 9093\<rparr>"
    by (simp add: get_topic_and_broker_details_def open_session_def example_store_def)
  have ne: "replicate 201 ''{}'' \<noteq> ([] :: json list)" by simp
  show ?thesis
    using res ne
    by (simp add: fetch_dataset_topic_data_def fetch_stream_data_def Let_def
        stream_client_def consumer_for_def DEFAULT_STREAM_DATA_COUNT_def)
qed

end
